theory Spec2Isabelle
  imports Main
begin

section \<open>Tensors\<close>

text \<open>
  A tensor is modelled by value: its shape, the device it lives on, its element type and
  its elements in row-major order. The elements stand for the stored numbers; no claim
  depends on floating-point arithmetic, so they are integers here.
\<close>

datatype torch_device = Cpu | Cuda nat

datatype dtype = Float16 | Float32 | Float64

record tensor =
  shape :: "nat list"
  dev :: torch_device
  dt :: dtype
  vals :: "int list"

datatype error = AttributeError | IndexError | TypeError | RuntimeError

text \<open>\<^verbatim>\<open>Tensor.cpu()\<close> and \<^verbatim>\<open>Tensor.to(device)\<close>: the same tensor on another device.\<close>

definition tensor_cpu :: "tensor \<Rightarrow> tensor" where
  "tensor_cpu t = t\<lparr>dev := Cpu\<rparr>"

definition tensor_to_device :: "tensor \<Rightarrow> torch_device \<Rightarrow> tensor" where
  "tensor_to_device t d = t\<lparr>dev := d\<rparr>"

text \<open>
  \<^verbatim>\<open>torch.empty_like(t)\<close>: a new tensor of the shape, device and element type of \<open>t\<close>;
  its contents are uninitialised, modelled as no elements written yet. The argument
  \<^verbatim>\<open>None\<close> raises \<^verbatim>\<open>TypeError\<close>.
\<close>

definition empty_like :: "tensor option \<Rightarrow> error + tensor" where
  "empty_like w = (case w of None \<Rightarrow> Inl TypeError | Some t \<Rightarrow> Inr (t\<lparr>vals := []\<rparr>))"

text \<open>
  \<^verbatim>\<open>dst.copy_(src)\<close>: the elements of \<open>src\<close>, broadcast to the shape of \<open>dst\<close>, are
  written into \<open>dst\<close>, which keeps its shape, device and element type. A source that does
  not broadcast to the destination raises \<^verbatim>\<open>RuntimeError\<close>.
\<close>

fun broadcastable :: "nat list \<Rightarrow> nat list \<Rightarrow> bool" where
  "broadcastable [] [] = True"
| "broadcastable (s # ss) (d # ds) = ((s = d \<or> s = 1) \<and> broadcastable ss ds)"
| "broadcastable _ _ = False"

fun broadcast_vals :: "nat list \<Rightarrow> nat list \<Rightarrow> int list \<Rightarrow> int list" where
  "broadcast_vals (s # ss) (d # ds) v =
     (let n = prod_list ss;
          rows = map (\<lambda>i. broadcast_vals ss ds (take n (drop (i * n) v))) [0..<s]
      in concat (if s = d then rows else replicate d (concat rows)))"
| "broadcast_vals _ _ v = v"

definition pad_shape :: "nat \<Rightarrow> nat list \<Rightarrow> nat list" where
  "pad_shape n s = replicate (n - length s) 1 @ s"

definition tensor_copy :: "tensor \<Rightarrow> tensor \<Rightarrow> error + tensor" where
  "tensor_copy dst src =
     (let s = pad_shape (length (shape dst)) (shape src)
      in if broadcastable s (shape dst)
         then Inr (dst\<lparr>vals := broadcast_vals s (shape dst) (vals src)\<rparr>)
         else Inl RuntimeError)"

text \<open>
  \<^verbatim>\<open>Tensor.to(*args, **kwargs)\<close>: the first positional argument is a tensor (take its
  device and element type), an element type, or a device; the keywords \<^verbatim>\<open>device\<close> and
  \<^verbatim>\<open>dtype\<close> name the target directly. The keyword \<^verbatim>\<open>device\<close> is absent (\<open>None\<close>),
  given as \<^verbatim>\<open>None\<close> (\<open>Some None\<close>) or given as a device.

  \<^verbatim>\<open>Tensor.to\<close> has three signatures: \<^verbatim>\<open>to(dtype)\<close>, \<^verbatim>\<open>to(other)\<close> and
  \<^verbatim>\<open>to(device=None, dtype=None)\<close>, the last with its arguments positional or by
  keyword. A call that fits none of them raises \<^verbatim>\<open>TypeError\<close>: a positional element
  type or tensor together with a \<^verbatim>\<open>device\<close> or \<^verbatim>\<open>dtype\<close> keyword, an argument given
  both by position and by keyword, or positional arguments in another order.
\<close>

datatype to_arg = ArgTensor tensor | ArgDtype dtype | ArgDevice torch_device

record to_kwargs =
  kw_device :: "torch_device option option"
  kw_dtype :: "dtype option"

fun to_args_ok :: "to_arg list \<Rightarrow> to_kwargs \<Rightarrow> bool" where
  "to_args_ok [] kw = True"
| "to_args_ok [ArgTensor other] kw = (kw_device kw = None \<and> kw_dtype kw = None)"
| "to_args_ok [ArgDtype ty] kw = (kw_device kw = None \<and> kw_dtype kw = None)"
| "to_args_ok [ArgDevice d] kw = (kw_device kw = None)"
| "to_args_ok [ArgDevice d, ArgDtype ty] kw = (kw_device kw = None \<and> kw_dtype kw = None)"
| "to_args_ok _ kw = False"

text \<open>The tensor an accepted call returns.\<close>

definition tensor_to_value :: "tensor \<Rightarrow> to_arg list \<Rightarrow> to_kwargs \<Rightarrow> tensor" where
  "tensor_to_value t args kw =
     (let t1 = (case args of
                  ArgTensor other # _ \<Rightarrow> t\<lparr>dev := dev other, dt := dt other\<rparr>
                | ArgDtype ty # _ \<Rightarrow> t\<lparr>dt := ty\<rparr>
                | ArgDevice d # ArgDtype ty # _ \<Rightarrow> t\<lparr>dev := d, dt := ty\<rparr>
                | ArgDevice d # _ \<Rightarrow> t\<lparr>dev := d\<rparr>
                | [] \<Rightarrow> t);
          t2 = (case kw_device kw of Some (Some d) \<Rightarrow> t1\<lparr>dev := d\<rparr> | _ \<Rightarrow> t1)
      in case kw_dtype kw of Some ty \<Rightarrow> t2\<lparr>dt := ty\<rparr> | None \<Rightarrow> t2)"

definition tensor_to :: "tensor \<Rightarrow> to_arg list \<Rightarrow> to_kwargs \<Rightarrow> error + tensor" where
  "tensor_to t args kw =
     (if to_args_ok args kw then Inr (tensor_to_value t args kw) else Inl TypeError)"

section \<open>The tile backend\<close>

type_synonym ref = nat

text \<open>
  The tile (\<^verbatim>\<open>SimulatorTileWrapper\<close>) is an external collaborator. Every call the
  dispatcher makes on it is recorded, in order, in the tile's \<open>calls\<close>.
\<close>

datatype tile_call =
    EnsureSharedWeights tensor
  | JointForward tensor bool
  | JointForwardIndexed tensor bool
  | Backward tensor
  | BackwardIndexed tensor
  | SetDeltaWeights tensor
  | Update tensor tensor
  | UpdateIndexed tensor tensor
  | ResetDeltaWeights

record tile =
  weights :: tensor
  is_cuda :: bool
  device :: torch_device
  analog_ctx :: "ref option"
  offload_input :: bool
  offload_gradient :: bool
  shared_weights :: "tensor option"
  delta_weights :: "tensor option"
  calls :: "tile_call list"

text \<open>
  The numeric routines of the tile are outside the core; what they compute is a
  parameter of the model.
\<close>

record numerics =
  forward_out :: "tile \<Rightarrow> tensor \<Rightarrow> bool \<Rightarrow> tensor"
  forward_indexed_out :: "tile \<Rightarrow> tensor \<Rightarrow> bool \<Rightarrow> tensor"
  backward_out :: "tile \<Rightarrow> tensor \<Rightarrow> tensor"
  backward_indexed_out :: "tile \<Rightarrow> tensor \<Rightarrow> tensor"
  update_vals :: "tile \<Rightarrow> tensor \<Rightarrow> tensor \<Rightarrow> int list"
  update_indexed_vals :: "tile \<Rightarrow> tensor \<Rightarrow> tensor \<Rightarrow> int list"

text \<open>
  Modelled from the spec: the tile methods of the capability interface
  (\<^verbatim>\<open>simulator/tiles/base.py\<close> is not part of the sources). \<^verbatim>\<open>getWeights\<close> reads the
  weight tensor; \<^verbatim>\<open>toAccelerator\<close> and \<^verbatim>\<open>toHost\<close> migrate the tile itself and return
  it; \<^verbatim>\<open>ensureSharedWeights\<close> binds an external tensor as the weight buffer;
  \<^verbatim>\<open>setDeltaWeightsTarget\<close> binds and \<^verbatim>\<open>clearDeltaWeightsTarget\<close> detaches the
  delta-weight target; the update routines write into the bound target in place.
\<close>

definition get_weights :: "tile \<Rightarrow> tensor" where
  "get_weights t = weights t"

definition tile_cuda :: "torch_device option \<Rightarrow> tile \<Rightarrow> tile" where
  "tile_cuda d t =
     (let target = (case d of Some (Cuda n) \<Rightarrow> Cuda n | _ \<Rightarrow> Cuda 0)
      in t\<lparr>weights := tensor_to_device (weights t) target, is_cuda := True, device := target\<rparr>)"

definition tile_cpu :: "tile \<Rightarrow> tile" where
  "tile_cpu t = t\<lparr>weights := tensor_cpu (weights t), is_cuda := False, device := Cpu\<rparr>"

definition ensure_shared_weights :: "tensor \<Rightarrow> tile \<Rightarrow> tile" where
  "ensure_shared_weights w t =
     t\<lparr>shared_weights := Some w, calls := calls t @ [EnsureSharedWeights w]\<rparr>"

definition joint_forward :: "numerics \<Rightarrow> tensor \<Rightarrow> bool \<Rightarrow> tile \<Rightarrow> tensor \<times> tile" where
  "joint_forward nm x is_test t =
     (forward_out nm t x is_test, t\<lparr>calls := calls t @ [JointForward x is_test]\<rparr>)"

definition joint_forward_indexed :: "numerics \<Rightarrow> tensor \<Rightarrow> bool \<Rightarrow> tile \<Rightarrow> tensor \<times> tile" where
  "joint_forward_indexed nm x is_test t =
     (forward_indexed_out nm t x is_test, t\<lparr>calls := calls t @ [JointForwardIndexed x is_test]\<rparr>)"

definition tile_backward :: "numerics \<Rightarrow> tensor \<Rightarrow> tile \<Rightarrow> tensor \<times> tile" where
  "tile_backward nm g t = (backward_out nm t g, t\<lparr>calls := calls t @ [Backward g]\<rparr>)"

definition tile_backward_indexed :: "numerics \<Rightarrow> tensor \<Rightarrow> tile \<Rightarrow> tensor \<times> tile" where
  "tile_backward_indexed nm g t =
     (backward_indexed_out nm t g, t\<lparr>calls := calls t @ [BackwardIndexed g]\<rparr>)"

definition set_delta_weights :: "tensor \<Rightarrow> tile \<Rightarrow> tile" where
  "set_delta_weights g t = t\<lparr>delta_weights := Some g, calls := calls t @ [SetDeltaWeights g]\<rparr>"

definition tile_update :: "numerics \<Rightarrow> tensor \<Rightarrow> tensor \<Rightarrow> tile \<Rightarrow> tile" where
  "tile_update nm x d t =
     t\<lparr>delta_weights := map_option (\<lambda>b. b\<lparr>vals := update_vals nm t x d\<rparr>) (delta_weights t),
       calls := calls t @ [Update x d]\<rparr>"

definition tile_update_indexed :: "numerics \<Rightarrow> tensor \<Rightarrow> tensor \<Rightarrow> tile \<Rightarrow> tile" where
  "tile_update_indexed nm x d t =
     t\<lparr>delta_weights := map_option (\<lambda>b. b\<lparr>vals := update_indexed_vals nm t x d\<rparr>) (delta_weights t),
       calls := calls t @ [UpdateIndexed x d]\<rparr>"

definition reset_delta_weights :: "tile \<Rightarrow> tile" where
  "reset_delta_weights t = t\<lparr>delta_weights := None, calls := calls t @ [ResetDeltaWeights]\<rparr>"

section \<open>Objects and the store\<close>

text \<open>
  A parameter object carries its class, its data and its gradient flag. The instance
  attributes that \<^verbatim>\<open>AnalogContext.__init__\<close> assigns are absent (\<open>None\<close>) until it has
  run. The store maps addresses to tile objects and to parameter objects, so that the
  context's pointer to its tile and the tile's pointer back are addresses that can be
  compared.
\<close>

datatype cls = ParameterCls | AnalogContextCls

record attrs =
  analog_tile :: "ref option"
  use_torch_update :: bool
  use_indexed :: bool
  analog_input :: "tensor list"
  analog_grad_output :: "tensor list"

record pyobj =
  cls :: cls
  data :: tensor
  requires_grad :: bool
  inst :: "attrs option"

record heap =
  tiles :: "ref \<Rightarrow> tile"
  objs :: "ref \<Rightarrow> pyobj"
  next_ref :: ref

definition upd_tile :: "ref \<Rightarrow> (tile \<Rightarrow> tile) \<Rightarrow> heap \<Rightarrow> heap" where
  "upd_tile r f h = h\<lparr>tiles := (tiles h)(r := f (tiles h r))\<rparr>"

definition upd_obj :: "ref \<Rightarrow> (pyobj \<Rightarrow> pyobj) \<Rightarrow> heap \<Rightarrow> heap" where
  "upd_obj r f h = h\<lparr>objs := (objs h)(r := f (objs h r))\<rparr>"

text \<open>
  Reading an instance attribute of the object at \<open>r\<close> as an \<^verbatim>\<open>AnalogContext\<close>: an object
  of another class, or one whose attributes were never assigned, raises
  \<^verbatim>\<open>AttributeError\<close>.
\<close>

definition get_attrs :: "heap \<Rightarrow> ref \<Rightarrow> error + attrs" where
  "get_attrs h r =
     (if cls (objs h r) = AnalogContextCls
      then (case inst (objs h r) of None \<Rightarrow> Inl AttributeError | Some a \<Rightarrow> Inr a)
      else Inl AttributeError)"

definition set_attrs :: "ref \<Rightarrow> attrs \<Rightarrow> heap \<Rightarrow> heap" where
  "set_attrs r a h = upd_obj r (\<lambda>ob. ob\<lparr>inst := Some a\<rparr>) h"

section \<open>AnalogContext\<close>

text \<open>
  \<^verbatim>\<open>reset\<close>: with a tile, point the context at it and the tile back at the context;
  then empty both traces.
\<close>

definition reset :: "ref \<Rightarrow> ref option \<Rightarrow> heap \<Rightarrow> error + heap" where
  "reset self analog_tile_arg h =
     (case get_attrs h self of
        Inl e \<Rightarrow> Inl e
      | Inr a \<Rightarrow>
          (case analog_tile_arg of
             Some t \<Rightarrow>
               Inr (upd_tile t (\<lambda>tl. tl\<lparr>analog_ctx := Some self\<rparr>)
                     (set_attrs self
                        (a\<lparr>analog_tile := Some t, analog_input := [], analog_grad_output := []\<rparr>) h))
           | None \<Rightarrow>
               Inr (set_attrs self (a\<lparr>analog_input := [], analog_grad_output := []\<rparr>) h)))"

text \<open>
  \<^verbatim>\<open>__new__\<close>: without a parameter, a new object of the class holding the tile's
  weights, with \<^verbatim>\<open>requires_grad=True\<close>; with one, that object itself, its class
  replaced and nothing else. The result is the address of the object.
\<close>

definition AnalogContext_new :: "ref option \<Rightarrow> ref option \<Rightarrow> heap \<Rightarrow> error + (ref \<times> heap)" where
  "AnalogContext_new analog_tile_arg parameter h =
     (case parameter of
        None \<Rightarrow>
          (case analog_tile_arg of
             None \<Rightarrow> Inl AttributeError
           | Some t \<Rightarrow>
               Inr (next_ref h,
                    h\<lparr>objs := (objs h)(next_ref h :=
                                 \<lparr>cls = AnalogContextCls, data = get_weights (tiles h t),
                                  requires_grad = True, inst = None\<rparr>),
                      next_ref := Suc (next_ref h)\<rparr>))
      | Some p \<Rightarrow> Inr (p, upd_obj p (\<lambda>ob. ob\<lparr>cls := AnalogContextCls\<rparr>) h))"

text \<open>\<^verbatim>\<open>__init__\<close>: assign the five attributes, then \<^verbatim>\<open>reset(analog_tile)\<close>.\<close>

definition AnalogContext_init :: "ref \<Rightarrow> ref option \<Rightarrow> heap \<Rightarrow> error + heap" where
  "AnalogContext_init self analog_tile_arg h =
     reset self analog_tile_arg
       (set_attrs self
          \<lparr>analog_tile = analog_tile_arg, use_torch_update = False, use_indexed = False,
           analog_input = [], analog_grad_output = []\<rparr> h)"

text \<open>The call \<^verbatim>\<open>AnalogContext(analog_tile, parameter)\<close>: \<^verbatim>\<open>__new__\<close>, then \<^verbatim>\<open>__init__\<close>.\<close>

definition construct :: "ref option \<Rightarrow> ref option \<Rightarrow> heap \<Rightarrow> error + (ref \<times> heap)" where
  "construct analog_tile_arg parameter h =
     (case AnalogContext_new analog_tile_arg parameter h of
        Inl e \<Rightarrow> Inl e
      | Inr (self, h1) \<Rightarrow>
          (case AnalogContext_init self analog_tile_arg h1 of
             Inl e \<Rightarrow> Inl e
           | Inr h2 \<Rightarrow> Inr (self, h2)))"

definition set_indexed :: "ref \<Rightarrow> bool \<Rightarrow> heap \<Rightarrow> error + heap" where
  "set_indexed self v h =
     (case get_attrs h self of
        Inl e \<Rightarrow> Inl e
      | Inr a \<Rightarrow> Inr (set_attrs self (a\<lparr>use_indexed := v\<rparr>) h))"

definition set_data :: "ref \<Rightarrow> tensor \<Rightarrow> heap \<Rightarrow> error + heap" where
  "set_data self d h =
     (if cls (objs h self) \<noteq> AnalogContextCls then Inl AttributeError
      else case tensor_copy (data (objs h self)) d of
             Inl e \<Rightarrow> Inl e
           | Inr t \<Rightarrow> Inr (upd_obj self (\<lambda>ob. ob\<lparr>data := t\<rparr>) h))"

definition get_data :: "ref \<Rightarrow> heap \<Rightarrow> error + tensor" where
  "get_data self h =
     (if cls (objs h self) \<noteq> AnalogContextCls then Inl AttributeError
      else Inr (data (objs h self)))"

definition has_gradient :: "ref \<Rightarrow> heap \<Rightarrow> error + bool" where
  "has_gradient self h =
     (case get_attrs h self of
        Inl e \<Rightarrow> Inl e
      | Inr a \<Rightarrow> Inr (length (analog_input a) > 0))"

text \<open>
  \<^verbatim>\<open>__copy__\<close> and \<^verbatim>\<open>__deepcopy__\<close>: \<^verbatim>\<open>Parameter(self.data)\<close>, a new object of class
  \<^verbatim>\<open>Parameter\<close> with the default \<^verbatim>\<open>requires_grad=True\<close>.
\<close>

definition new_parameter :: "tensor \<Rightarrow> heap \<Rightarrow> ref \<times> heap" where
  "new_parameter d h =
     (next_ref h,
      h\<lparr>objs := (objs h)(next_ref h :=
                   \<lparr>cls = ParameterCls, data = d, requires_grad = True, inst = None\<rparr>),
        next_ref := Suc (next_ref h)\<rparr>)"

definition copy :: "ref \<Rightarrow> heap \<Rightarrow> error + (ref \<times> heap)" where
  "copy self h =
     (if cls (objs h self) \<noteq> AnalogContextCls then Inl AttributeError
      else Inr (new_parameter (data (objs h self)) h))"

definition deepcopy :: "ref \<Rightarrow> heap \<Rightarrow> error + (ref \<times> heap)" where
  "deepcopy self h =
     (if cls (objs h self) \<noteq> AnalogContextCls then Inl AttributeError
      else Inr (new_parameter (data (objs h self)) h))"

text \<open>
  \<^verbatim>\<open>cuda\<close>: only when the tile is not on the accelerator, re-read the weights, move the
  tile and rebind through \<^verbatim>\<open>reset\<close>. A context without a tile raises on
  \<^verbatim>\<open>self.analog_tile.is_cuda\<close>.
\<close>

definition cuda :: "ref \<Rightarrow> torch_device option \<Rightarrow> heap \<Rightarrow> error + heap" where
  "cuda self d h =
     (case get_attrs h self of
        Inl e \<Rightarrow> Inl e
      | Inr a \<Rightarrow>
          (case analog_tile a of
             None \<Rightarrow> Inl AttributeError
           | Some t \<Rightarrow>
               if \<not> is_cuda (tiles h t)
               then reset self (Some t)
                      (upd_tile t (tile_cuda d)
                         (upd_obj self (\<lambda>ob. ob\<lparr>data := get_weights (tiles h t)\<rparr>) h))
               else Inr h))"

text \<open>
  \<^verbatim>\<open>cpu\<close>: the data goes to the host; the tile moves, and the binding is reset, only
  when there is a tile and it is on the accelerator.
\<close>

definition cpu :: "ref \<Rightarrow> heap \<Rightarrow> error + heap" where
  "cpu self h =
     (case get_attrs h self of
        Inl e \<Rightarrow> Inl e
      | Inr a \<Rightarrow>
          (let h1 = upd_obj self (\<lambda>ob. ob\<lparr>data := tensor_cpu (data ob)\<rparr>) h
           in case analog_tile a of
                None \<Rightarrow> Inr h1
              | Some t \<Rightarrow>
                  if is_cuda (tiles h1 t)
                  then reset self (Some t) (upd_tile t tile_cpu h1)
                  else Inr h1))"

text \<open>
  \<^verbatim>\<open>to\<close>: first the data follows \<^verbatim>\<open>Tensor.to\<close>, which raises on arguments it does
  not accept, before anything is assigned. The target device is the keyword
  \<^verbatim>\<open>device\<close> if given, else the first positional argument unless that is a tensor or
  an element type; without a target nothing else is read. A CUDA target with a host tile
  goes through \<^verbatim>\<open>cuda\<close>, a host target with an accelerator tile through \<^verbatim>\<open>cpu\<close>;
  anything else leaves the tile alone.
\<close>

definition to_target :: "to_arg list \<Rightarrow> to_kwargs \<Rightarrow> torch_device option" where
  "to_target args kw =
     (case kw_device kw of
        Some d \<Rightarrow> d
      | None \<Rightarrow> (case args of ArgDevice d # _ \<Rightarrow> Some d | _ \<Rightarrow> None))"

definition to :: "ref \<Rightarrow> to_arg list \<Rightarrow> to_kwargs \<Rightarrow> heap \<Rightarrow> error + heap" where
  "to self args kw h =
     (if cls (objs h self) \<noteq> AnalogContextCls then Inl AttributeError
      else case tensor_to (data (objs h self)) args kw of
             Inl e \<Rightarrow> Inl e
           | Inr d \<Rightarrow>
               (let h1 = upd_obj self (\<lambda>ob. ob\<lparr>data := d\<rparr>) h
                in case to_target args kw of
                     None \<Rightarrow> Inr h1
                   | Some target \<Rightarrow>
                       (case get_attrs h1 self of
                          Inl e \<Rightarrow> Inl e
                        | Inr a \<Rightarrow>
                            (case analog_tile a of
                               None \<Rightarrow> Inl AttributeError
                             | Some t \<Rightarrow>
                                 (case target of
                                    Cuda n \<Rightarrow>
                                      if \<not> is_cuda (tiles h1 t)
                                      then cuda self (Some target) h1 else Inr h1
                                  | Cpu \<Rightarrow>
                                      if is_cuda (tiles h1 t)
                                      then cpu self h1 else Inr h1)))))"

section \<open>AnalogFunction\<close>

text \<open>
  The call state \<^verbatim>\<open>ctx\<close> that the autograd engine hands from \<^verbatim>\<open>forward\<close> to the
  matching \<^verbatim>\<open>backward\<close>: the context and tile references, the shared weights if any,
  and the saved tensors. The tile routines also receive \<^verbatim>\<open>ctx\<close>; they are taken not to
  touch the saved input.
\<close>

record fctx =
  ctx_analog_ctx :: ref
  ctx_analog_tile :: ref
  ctx_shared_weights :: "tensor option"
  saved_tensors :: "tensor list"
  saved_analog_tensors :: "tensor list"

text \<open>
  The tuple \<^verbatim>\<open>backward\<close> returns: one gradient slot for each argument of
  \<^verbatim>\<open>forward\<close>, in order.
\<close>

record grads =
  grad_analog_ctx :: "tensor option"
  grad_analog_tile :: "tensor option"
  grad_input :: "tensor option"
  grad_shared_weights :: "tensor option"
  grad_is_test :: "tensor option"

text \<open>\<^verbatim>\<open>xs[0] = xs[0].cpu()\<close>\<close>

definition cpu_first :: "tensor list \<Rightarrow> error + tensor list" where
  "cpu_first xs = (case xs of [] \<Rightarrow> Inl IndexError | x # rest \<Rightarrow> Inr (tensor_cpu x # rest))"

definition forward ::
  "numerics \<Rightarrow> ref \<Rightarrow> ref \<Rightarrow> tensor \<Rightarrow> tensor option \<Rightarrow> bool \<Rightarrow> heap
     \<Rightarrow> error + (tensor \<times> fctx \<times> heap)" where
  "forward nm analog_ctx_r analog_tile_r input shared is_test h =
     (let ctx0 = \<lparr>ctx_analog_ctx = analog_ctx_r, ctx_analog_tile = analog_tile_r,
                  ctx_shared_weights = None, saved_tensors = [],
                  saved_analog_tensors = [input]\<rparr>
      in case get_attrs h analog_ctx_r of
           Inl e \<Rightarrow> Inl e
         | Inr a \<Rightarrow>
             (let use_idx = use_indexed a;
                  (ctx1, h1) =
                    (case shared of
                       Some w \<Rightarrow>
                         (ctx0\<lparr>ctx_shared_weights := Some w\<rparr>,
                          set_attrs analog_ctx_r (a\<lparr>use_torch_update := True\<rparr>)
                            (upd_tile analog_tile_r (ensure_shared_weights w) h))
                     | None \<Rightarrow>
                         (ctx0, set_attrs analog_ctx_r (a\<lparr>use_torch_update := False\<rparr>) h));
                  (out, t2) =
                    (if use_idx
                     then joint_forward_indexed nm input is_test (tiles h1 analog_tile_r)
                     else joint_forward nm input is_test (tiles h1 analog_tile_r));
                  h2 = h1\<lparr>tiles := (tiles h1)(analog_tile_r := t2)\<rparr>
              in case (if offload_input (tiles h2 analog_tile_r)
                       then cpu_first (saved_analog_tensors ctx1)
                       else Inr (saved_analog_tensors ctx1)) of
                   Inl e \<Rightarrow> Inl e
                 | Inr saved \<Rightarrow>
                     Inr (out,
                          ctx1\<lparr>saved_tensors := saved, saved_analog_tensors := []\<rparr>,
                          h2)))"

definition backward ::
  "numerics \<Rightarrow> fctx \<Rightarrow> tensor \<Rightarrow> heap \<Rightarrow> error + (grads \<times> fctx \<times> heap)" where
  "backward nm ctx grad_output h =
     (let analog_ctx_r = ctx_analog_ctx ctx;
          analog_tile_r = ctx_analog_tile ctx;
          ctx1 = ctx\<lparr>saved_analog_tensors := saved_tensors ctx\<rparr>
      in case saved_analog_tensors ctx1 of
           [] \<Rightarrow> Inl IndexError
         | input # _ \<Rightarrow>
             (case get_attrs h analog_ctx_r of
                Inl e \<Rightarrow> Inl e
              | Inr a \<Rightarrow>
                  (let use_idx = use_indexed a;
                       h1 = (case ctx_shared_weights ctx1 of
                               Some w \<Rightarrow> upd_tile analog_tile_r (ensure_shared_weights w) h
                             | None \<Rightarrow> h);
                       (g_in, t2) =
                         (if use_idx
                          then tile_backward_indexed nm grad_output (tiles h1 analog_tile_r)
                          else tile_backward nm grad_output (tiles h1 analog_tile_r));
                       h2 = h1\<lparr>tiles := (tiles h1)(analog_tile_r := t2)\<rparr>
                   in if use_torch_update a
                      then
                        (let input1 = (if offload_input (tiles h2 analog_tile_r)
                                       then tensor_to_device input (device (tiles h2 analog_tile_r))
                                       else input)
                         in case empty_like (ctx_shared_weights ctx1) of
                              Inl e \<Rightarrow> Inl e
                            | Inr buf \<Rightarrow>
                                (let h3 = upd_tile analog_tile_r (set_delta_weights buf) h2;
                                     h4 = upd_tile analog_tile_r
                                            (if use_idx
                                             then tile_update_indexed nm input1 grad_output
                                             else tile_update nm input1 grad_output) h3;
                                     shared_weights_grad =
                                       (case delta_weights (tiles h4 analog_tile_r) of
                                          Some b \<Rightarrow> b
                                        | None \<Rightarrow> buf);
                                     h5 = upd_tile analog_tile_r reset_delta_weights h4
                                 in Inr (\<lparr>grad_analog_ctx = None, grad_analog_tile = None,
                                           grad_input = Some g_in,
                                           grad_shared_weights = Some shared_weights_grad,
                                           grad_is_test = None\<rparr>,
                                         ctx1\<lparr>saved_analog_tensors := []\<rparr>,
                                         h5)))
                      else
                        (let store_gradients =
                               (if offload_gradient (tiles h2 analog_tile_r)
                                then tensor_cpu grad_output
                                else grad_output);
                             h3 = set_attrs analog_ctx_r
                                    (a\<lparr>analog_input := analog_input a @ [input],
                                       analog_grad_output :=
                                         analog_grad_output a @ [store_gradients]\<rparr>) h2
                         in Inr (\<lparr>grad_analog_ctx = None, grad_analog_tile = None,
                                   grad_input = Some g_in,
                                   grad_shared_weights = None,
                                   grad_is_test = None\<rparr>,
                                 ctx1\<lparr>saved_analog_tensors := []\<rparr>,
                                 h3)))))"

section \<open>Call sequences\<close>

text \<open>One \<^verbatim>\<open>forward\<close> and its matching \<^verbatim>\<open>backward\<close>, run back to back.\<close>

definition forward_backward ::
  "numerics \<Rightarrow> ref \<Rightarrow> ref \<Rightarrow> tensor \<Rightarrow> tensor option \<Rightarrow> bool \<Rightarrow> tensor \<Rightarrow> heap
     \<Rightarrow> error + (grads \<times> heap)" where
  "forward_backward nm c t x shared is_test g h =
     (case forward nm c t x shared is_test h of
        Inl e \<Rightarrow> Inl e
      | Inr (out, s, h1) \<Rightarrow>
          (case backward nm s g h1 of
             Inl e \<Rightarrow> Inl e
           | Inr (r, s', h2) \<Rightarrow> Inr (r, h2)))"

text \<open>
  A sequence of such pairs on one context and tile, none with shared weights; each
  element is the input, the test flag and the incoming error of one pair.
\<close>

fun run_pairs ::
  "numerics \<Rightarrow> ref \<Rightarrow> ref \<Rightarrow> (tensor \<times> bool \<times> tensor) list \<Rightarrow> heap \<Rightarrow> error + heap" where
  "run_pairs nm c t [] h = Inr h"
| "run_pairs nm c t ((x, is_test, g) # ps) h =
     (case forward_backward nm c t x None is_test g h of
        Inl e \<Rightarrow> Inl e
      | Inr (r, h1) \<Rightarrow> run_pairs nm c t ps h1)"

text \<open>The operations of the context and of the dispatcher, as one step function.\<close>

datatype op =
    OpConstruct "ref option" "ref option"
  | OpReset ref "ref option"
  | OpSetIndexed ref bool
  | OpSetData ref tensor
  | OpCopy ref
  | OpDeepcopy ref
  | OpCuda ref "torch_device option"
  | OpCpu ref
  | OpTo ref "to_arg list" to_kwargs
  | OpForward ref ref tensor "tensor option" bool
  | OpBackward fctx tensor

fun apply_op :: "numerics \<Rightarrow> op \<Rightarrow> heap \<Rightarrow> error + heap" where
  "apply_op nm (OpConstruct t p) h = map_sum id snd (construct t p h)"
| "apply_op nm (OpReset self t) h = reset self t h"
| "apply_op nm (OpSetIndexed self v) h = set_indexed self v h"
| "apply_op nm (OpSetData self d) h = set_data self d h"
| "apply_op nm (OpCopy self) h = map_sum id snd (copy self h)"
| "apply_op nm (OpDeepcopy self) h = map_sum id snd (deepcopy self h)"
| "apply_op nm (OpCuda self d) h = cuda self d h"
| "apply_op nm (OpCpu self) h = cpu self h"
| "apply_op nm (OpTo self args kw) h = to self args kw h"
| "apply_op nm (OpForward c t x shared is_test) h =
     map_sum id (\<lambda>(out, s, h'). h') (forward nm c t x shared is_test h)"
| "apply_op nm (OpBackward s g) h = map_sum id (\<lambda>(r, s', h'). h') (backward nm s g h)"

text \<open>
  Whether the tile of the context at an address is on the accelerator; \<open>None\<close> when the
  object is not an initialised context or has no tile.
\<close>

definition tile_on_cuda :: "heap \<Rightarrow> ref \<Rightarrow> bool option" where
  "tile_on_cuda h self =
     (case get_attrs h self of
        Inl e \<Rightarrow> None
      | Inr a \<Rightarrow> map_option (\<lambda>t. is_cuda (tiles h t)) (analog_tile a))"

text \<open>
  Whether an operation, run in a store, reaches \<^verbatim>\<open>reset\<close> on the object at \<open>r\<close>:
  \<^verbatim>\<open>reset\<close> itself; construction, through \<^verbatim>\<open>__init__\<close>, on the object it returns;
  \<^verbatim>\<open>cuda\<close> only when the tile is not on the accelerator; \<^verbatim>\<open>cpu\<close> only when it is;
  \<^verbatim>\<open>to\<close> only when it hands over to one of the two under the same condition.
\<close>

fun runs_reset :: "op \<Rightarrow> heap \<Rightarrow> ref \<Rightarrow> bool" where
  "runs_reset (OpConstruct t p) h r = (case p of Some q \<Rightarrow> r = q | None \<Rightarrow> r = next_ref h)"
| "runs_reset (OpReset self t) h r = (r = self)"
| "runs_reset (OpCuda self d) h r = (r = self \<and> tile_on_cuda h self = Some False)"
| "runs_reset (OpCpu self) h r = (r = self \<and> tile_on_cuda h self = Some True)"
| "runs_reset (OpTo self args kw) h r =
     (r = self \<and>
      (case to_target args kw of
         Some (Cuda n) \<Rightarrow> tile_on_cuda h self = Some False
       | Some Cpu \<Rightarrow> tile_on_cuda h self = Some True
       | None \<Rightarrow> False))"
| "runs_reset _ h r = False"

text \<open>The two traces of the object at an address; an object without them has none.\<close>

definition traces :: "heap \<Rightarrow> ref \<Rightarrow> tensor list \<times> tensor list" where
  "traces h r =
     (case inst (objs h r) of
        None \<Rightarrow> ([], [])
      | Some a \<Rightarrow> (analog_input a, analog_grad_output a))"

definition traces_balanced :: "heap \<Rightarrow> ref \<Rightarrow> bool" where
  "traces_balanced h r = (length (fst (traces h r)) = length (snd (traces h r)))"

section \<open>Test doubles\<close>

text \<open>
  Concrete tensors, a numeric backend with fixed answers, a host tile and an accelerator
  tile whose runtime offloads inputs and gradients, and a store holding them: tile 0 is
  the host tile, tile 1 the accelerator tile, object 0 an ordinary parameter, object 1 a
  frozen one (\<^verbatim>\<open>requires_grad=False\<close>).
\<close>

definition tensor_A :: tensor where
  "tensor_A = \<lparr>shape = [1, 2], dev = Cuda 0, dt = Float32, vals = [1, 2]\<rparr>"

definition tensor_B :: tensor where
  "tensor_B = \<lparr>shape = [1, 3], dev = Cuda 0, dt = Float32, vals = [5, 6, 7]\<rparr>"

definition tensor_W :: tensor where
  "tensor_W = \<lparr>shape = [3, 2], dev = Cpu, dt = Float32, vals = [0, 0, 0, 0, 0, 0]\<rparr>"

definition nm0 :: numerics where
  "nm0 = \<lparr>forward_out = (\<lambda>t x is_test. tensor_B),
          forward_indexed_out = (\<lambda>t x is_test. tensor_B\<lparr>vals := [7, 6, 5]\<rparr>),
          backward_out = (\<lambda>t g. tensor_A\<lparr>vals := [3, 4]\<rparr>),
          backward_indexed_out = (\<lambda>t g. tensor_A\<lparr>vals := [4, 3]\<rparr>),
          update_vals = (\<lambda>t x d. [1, 1, 1, 1, 1, 1]),
          update_indexed_vals = (\<lambda>t x d. [2, 2, 2, 2, 2, 2])\<rparr>"

definition host_tile :: tile where
  "host_tile = \<lparr>weights = tensor_W, is_cuda = False, device = Cpu, analog_ctx = None,
                offload_input = False, offload_gradient = False, shared_weights = None,
                delta_weights = None, calls = []\<rparr>"

definition cuda_tile :: tile where
  "cuda_tile = \<lparr>weights = tensor_W\<lparr>dev := Cuda 0\<rparr>, is_cuda = True, device = Cuda 0,
                analog_ctx = None, offload_input = True, offload_gradient = True,
                shared_weights = None, delta_weights = None, calls = []\<rparr>"

definition heap0 :: heap where
  "heap0 = \<lparr>tiles = (\<lambda>r. if r = 1 then cuda_tile else host_tile),
            objs = (\<lambda>r. \<lparr>cls = ParameterCls, data = tensor_W, requires_grad = (r \<noteq> 1),
                         inst = None\<rparr>),
            next_ref = 2\<rparr>"

text \<open>The store after a context has been built at address 2 on tile \<open>t\<close>.\<close>

definition fresh_attrs :: "ref \<Rightarrow> attrs" where
  "fresh_attrs t = \<lparr>analog_tile = Some t, use_torch_update = False, use_indexed = False,
                    analog_input = [], analog_grad_output = []\<rparr>"

definition bound_heap :: "ref \<Rightarrow> heap" where
  "bound_heap t =
     \<lparr>tiles = (\<lambda>r. if r = t then (tiles heap0 t)\<lparr>analog_ctx := Some 2\<rparr> else tiles heap0 r),
      objs = (\<lambda>r. if r = 2
                   then \<lparr>cls = AnalogContextCls, data = weights (tiles heap0 t),
                         requires_grad = True, inst = Some (fresh_attrs t)\<rparr>
                   else objs heap0 r),
      next_ref = 3\<rparr>"

text \<open>
  Two \<^verbatim>\<open>forward\<close> calls on one context, then the \<^verbatim>\<open>backward\<close> of the first.
\<close>

definition interleaved ::
  "numerics \<Rightarrow> ref \<Rightarrow> ref \<Rightarrow> tensor \<Rightarrow> tensor option \<Rightarrow> tensor \<Rightarrow> tensor option \<Rightarrow> tensor
     \<Rightarrow> heap \<Rightarrow> error + (grads \<times> heap)" where
  "interleaved nm c t x1 sh1 x2 sh2 g h =
     (case forward nm c t x1 sh1 False h of
        Inl e \<Rightarrow> Inl e
      | Inr (out1, s1, h1) \<Rightarrow>
          (case forward nm c t x2 sh2 False h1 of
             Inl e \<Rightarrow> Inl e
           | Inr (out2, s2, h2) \<Rightarrow>
               (case backward nm s1 g h2 of
                  Inl e \<Rightarrow> Inl e
                | Inr (r, s', h3) \<Rightarrow> Inr (r, h3))))"


text \<open>A saved call state as \<^verbatim>\<open>forward\<close> leaves it: input \<open>tensor_A\<close>, no shared weights.\<close>

definition saved_A :: fctx where
  "saved_A = \<lparr>ctx_analog_ctx = 2, ctx_analog_tile = 0, ctx_shared_weights = None,
              saved_tensors = [tensor_A], saved_analog_tensors = []\<rparr>"

text \<open>The keyword arguments \<^verbatim>\<open>device="cpu"\<close>, and no keyword arguments.\<close>

definition kw_host :: to_kwargs where
  "kw_host = \<lparr>kw_device = Some (Some Cpu), kw_dtype = None\<rparr>"

definition kw_none :: to_kwargs where
  "kw_none = \<lparr>kw_device = None, kw_dtype = None\<rparr>"

text \<open>
  The store with a context in use at address 2 on tile \<open>t\<close>: both flags set and one pair
  in its traces.
\<close>

definition busy_attrs :: "ref \<Rightarrow> attrs" where
  "busy_attrs t = \<lparr>analog_tile = Some t, use_torch_update = True, use_indexed = True,
                   analog_input = [tensor_A], analog_grad_output = [tensor_B]\<rparr>"

definition busy_heap :: "ref \<Rightarrow> heap" where
  "busy_heap t =
     \<lparr>tiles = (\<lambda>r. if r = t then (tiles heap0 t)\<lparr>analog_ctx := Some 2\<rparr> else tiles heap0 r),
      objs = (\<lambda>r. if r = 2
                   then \<lparr>cls = AnalogContextCls, data = weights (tiles heap0 t),
                         requires_grad = True, inst = Some (busy_attrs t)\<rparr>
                   else objs heap0 r),
      next_ref = 3\<rparr>"

section \<open>Store and dispatcher lemmas\<close>

lemmas tile_defs = ensure_shared_weights_def joint_forward_def joint_forward_indexed_def
  tile_backward_def tile_backward_indexed_def set_delta_weights_def tile_update_def
  tile_update_indexed_def reset_delta_weights_def

lemma upd_tile_simps:
  "tiles (upd_tile r f h) = (tiles h)(r := f (tiles h r))"
  "objs (upd_tile r f h) = objs h"
  "next_ref (upd_tile r f h) = next_ref h"
  by (simp_all add: upd_tile_def)

lemma upd_obj_simps:
  "tiles (upd_obj r f h) = tiles h"
  "objs (upd_obj r f h) = (objs h)(r := f (objs h r))"
  "next_ref (upd_obj r f h) = next_ref h"
  by (simp_all add: upd_obj_def)

lemma set_attrs_simps:
  "tiles (set_attrs r a h) = tiles h"
  "objs (set_attrs r a h) = (objs h)(r := (objs h r)\<lparr>inst := Some a\<rparr>)"
  "next_ref (set_attrs r a h) = next_ref h"
  by (simp_all add: set_attrs_def upd_obj_def)

lemma get_attrs_InrD:
  "get_attrs h r = Inr a \<Longrightarrow> cls (objs h r) = AnalogContextCls \<and> inst (objs h r) = Some a"
  by (auto simp: get_attrs_def split: if_splits option.splits)

lemma get_attrs_upd_tile: "get_attrs (upd_tile r f h) r' = get_attrs h r'"
  by (simp add: get_attrs_def upd_tile_def)

lemma get_attrs_tiles_update: "get_attrs (h\<lparr>tiles := ts\<rparr>) r = get_attrs h r"
  by (simp add: get_attrs_def)

lemma get_attrs_set_attrs:
  "get_attrs (set_attrs r a h) r' =
     (if r' = r then (if cls (objs h r) = AnalogContextCls then Inr a else Inl AttributeError)
      else get_attrs h r')"
  by (simp add: get_attrs_def set_attrs_def upd_obj_def)

lemma traces_upd_tile: "traces (upd_tile r f h) r' = traces h r'"
  by (simp add: traces_def upd_tile_def)

lemma traces_tiles_update: "traces (h\<lparr>tiles := ts\<rparr>) r = traces h r"
  by (simp add: traces_def)

lemma traces_set_attrs:
  "traces (set_attrs r a h) r' =
     (if r' = r then (analog_input a, analog_grad_output a) else traces h r')"
  by (simp add: traces_def set_attrs_def upd_obj_def)

lemma traces_of_attrs:
  "get_attrs h r = Inr a \<Longrightarrow> traces h r = (analog_input a, analog_grad_output a)"
  by (auto simp: traces_def dest: get_attrs_InrD)

lemma forward_eq:
  assumes "get_attrs h c = Inr a"
  shows "forward nm c t x sh it h =
     (let h0 = (case sh of Some w \<Rightarrow> upd_tile t (ensure_shared_weights w) h | None \<Rightarrow> h);
          jf = (if use_indexed a then joint_forward_indexed else joint_forward)
      in Inr (fst (jf nm x it (tiles h0 t)),
              \<lparr>ctx_analog_ctx = c, ctx_analog_tile = t, ctx_shared_weights = sh,
               saved_tensors = [if offload_input (tiles h t) then tensor_cpu x else x],
               saved_analog_tensors = []\<rparr>,
              upd_tile t (\<lambda>tl. snd (jf nm x it tl))
                (set_attrs c (a\<lparr>use_torch_update := (sh \<noteq> None)\<rparr>) h0)))"
  using assms
  by (cases sh)
     (simp_all add: forward_def Let_def cpu_first_def upd_tile_def set_attrs_def upd_obj_def
        tile_defs)

lemma backward_deferred_eq:
  assumes "get_attrs h (ctx_analog_ctx s) = Inr a" and "saved_tensors s = x # xs"
    and "\<not> use_torch_update a"
  shows "backward nm s g h =
     (let t = ctx_analog_tile s;
          h0 = (case ctx_shared_weights s of
                  Some w \<Rightarrow> upd_tile t (ensure_shared_weights w) h | None \<Rightarrow> h);
          bw = (if use_indexed a then tile_backward_indexed else tile_backward)
      in Inr (\<lparr>grad_analog_ctx = None, grad_analog_tile = None,
                grad_input = Some (fst (bw nm g (tiles h0 t))),
                grad_shared_weights = None, grad_is_test = None\<rparr>,
              s\<lparr>saved_analog_tensors := []\<rparr>,
              set_attrs (ctx_analog_ctx s)
                (a\<lparr>analog_input := analog_input a @ [x],
                   analog_grad_output := analog_grad_output a
                     @ [if offload_gradient (tiles h t) then tensor_cpu g else g]\<rparr>)
                (upd_tile t (\<lambda>tl. snd (bw nm g tl)) h0)))"
  using assms
  by (cases "ctx_shared_weights s")
     (simp_all add: backward_def Let_def upd_tile_def set_attrs_def upd_obj_def tile_defs)

lemma backward_direct_eq:
  assumes "get_attrs h (ctx_analog_ctx s) = Inr a" and "saved_tensors s = x # xs"
    and "use_torch_update a" and "ctx_shared_weights s = Some w"
  shows "backward nm s g h =
     (let t = ctx_analog_tile s;
          h0 = upd_tile t (ensure_shared_weights w) h;
          bw = (if use_indexed a then tile_backward_indexed else tile_backward);
          up = (if use_indexed a then tile_update_indexed else tile_update);
          x1 = (if offload_input (tiles h t) then tensor_to_device x (device (tiles h t)) else x);
          h4 = upd_tile t (up nm x1 g)
                 (upd_tile t (set_delta_weights (w\<lparr>vals := []\<rparr>))
                    (upd_tile t (\<lambda>tl. snd (bw nm g tl)) h0))
      in Inr (\<lparr>grad_analog_ctx = None, grad_analog_tile = None,
                grad_input = Some (fst (bw nm g (tiles h0 t))),
                grad_shared_weights = delta_weights (tiles h4 t), grad_is_test = None\<rparr>,
              s\<lparr>saved_analog_tensors := []\<rparr>,
              upd_tile t reset_delta_weights h4))"
  using assms
  by (simp add: backward_def Let_def upd_tile_def tile_defs empty_like_def)

lemma backward_type_error:
  assumes "get_attrs h (ctx_analog_ctx s) = Inr a" and "saved_tensors s = x # xs"
    and "use_torch_update a" and "ctx_shared_weights s = None"
  shows "backward nm s g h = Inl TypeError"
  using assms
  by (simp add: backward_def Let_def empty_like_def split: prod.splits)

section \<open>Trace accumulation\<close>

lemma forward_backward_deferred:
  assumes "get_attrs h c = Inr a"
  shows "\<exists>r h'. forward_backward nm c t x None it g h = Inr (r, h')
           \<and> get_attrs h' c =
               Inr (a\<lparr>use_torch_update := False,
                      analog_input := analog_input a
                        @ [if offload_input (tiles h t) then tensor_cpu x else x],
                      analog_grad_output := analog_grad_output a
                        @ [if offload_gradient (tiles h t) then tensor_cpu g else g]\<rparr>)
           \<and> grad_shared_weights r = None"
proof -
  note c = get_attrs_InrD[OF assms]
  define s :: fctx where "s = \<lparr>ctx_analog_ctx = c, ctx_analog_tile = t, ctx_shared_weights = None,
               saved_tensors = [if offload_input (tiles h t) then tensor_cpu x else x],
               saved_analog_tensors = []\<rparr>"
  define jf where "jf = (if use_indexed a then joint_forward_indexed else joint_forward)"
  define h1 where "h1 = upd_tile t (\<lambda>tl. snd (jf nm x it tl))
                (set_attrs c (a\<lparr>use_torch_update := False\<rparr>) h)"
  have f: "forward nm c t x None it h = Inr (fst (jf nm x it (tiles h t)), s, h1)"
    by (simp add: forward_eq[OF assms] s_def jf_def h1_def Let_def)
  have a1: "get_attrs h1 (ctx_analog_ctx s) = Inr (a\<lparr>use_torch_update := False\<rparr>)"
    using c by (simp add: h1_def s_def get_attrs_upd_tile get_attrs_set_attrs)
  have sv: "saved_tensors s = (if offload_input (tiles h t) then tensor_cpu x else x) # []"
    by (simp add: s_def)
  have og: "offload_gradient (tiles h1 t) = offload_gradient (tiles h t)"
    by (simp add: h1_def jf_def upd_tile_simps set_attrs_simps tile_defs)
  have cs: "ctx_analog_ctx s = c" "ctx_analog_tile s = t" "ctx_shared_weights s = None"
    by (simp_all add: s_def)
  have cl: "cls (objs h1 c) = AnalogContextCls"
    using c by (simp add: h1_def upd_tile_simps set_attrs_simps)
  show ?thesis
    unfolding forward_backward_def f
    using cl og
    by (simp add: backward_deferred_eq[OF a1 sv] Let_def cs get_attrs_set_attrs
         get_attrs_upd_tile upd_tile_simps)
qed

lemma run_pairs_lengths:
  "get_attrs h c = Inr a \<Longrightarrow>
   \<exists>h' a'. run_pairs nm c t ps h = Inr h' \<and> get_attrs h' c = Inr a'
     \<and> length (analog_input a') = length (analog_input a) + length ps
     \<and> length (analog_grad_output a') = length (analog_grad_output a) + length ps"
proof (induction ps arbitrary: h a)
  case Nil
  then show ?case by simp
next
  case (Cons p ps)
  obtain x it g where p: "p = (x, it, g)" by (cases p) auto
  define a1 where "a1 = a\<lparr>use_torch_update := False,
                      analog_input := analog_input a
                        @ [if offload_input (tiles h t) then tensor_cpu x else x],
                      analog_grad_output := analog_grad_output a
                        @ [if offload_gradient (tiles h t) then tensor_cpu g else g]\<rparr>"
  from forward_backward_deferred[OF Cons.prems, of nm t x it g]
  obtain r h1 where fb: "forward_backward nm c t x None it g h = Inr (r, h1)"
    and a1: "get_attrs h1 c = Inr a1"
    unfolding a1_def by blast
  have l1: "length (analog_input a1) = length (analog_input a) + 1"
           "length (analog_grad_output a1) = length (analog_grad_output a) + 1"
    by (simp_all add: a1_def)
  from Cons.IH[OF a1] obtain h' a' where
    "run_pairs nm c t ps h1 = Inr h'" "get_attrs h' c = Inr a'"
    "length (analog_input a') = length (analog_input a1) + length ps"
    "length (analog_grad_output a') = length (analog_grad_output a1) + length ps"
    by blast
  with fb l1 p show ?case by simp
qed

text \<open>
  C1. On a context whose traces are empty, any sequence of N forward/backward pairs
  without shared weights, with no reset in between, returns, and afterwards both
  \<^verbatim>\<open>analog_input\<close> and \<^verbatim>\<open>analog_grad_output\<close> have length exactly N; \<^verbatim>\<open>has_gradient()\<close>
  is true exactly when N is at least 1.
\<close>

theorem trace_length_after_pairs:
  assumes "get_attrs h c = Inr a" and "analog_input a = []" and "analog_grad_output a = []"
  shows "\<exists>h'. run_pairs nm c t ps h = Inr h'
           \<and> length (fst (traces h' c)) = length ps
           \<and> length (snd (traces h' c)) = length ps
           \<and> has_gradient c h' = Inr (length ps \<ge> 1)"
proof -
  from run_pairs_lengths[OF assms(1), of nm t ps]
  obtain h' a' where r: "run_pairs nm c t ps h = Inr h'" and a': "get_attrs h' c = Inr a'"
    and l: "length (analog_input a') = length (analog_input a) + length ps"
           "length (analog_grad_output a') = length (analog_grad_output a) + length ps"
    by blast
  from a' l assms(2,3) have "has_gradient c h' = Inr (length ps \<ge> 1)"
    by (auto simp: has_gradient_def Suc_le_eq)
  with r l assms(2,3) traces_of_attrs[OF a'] show ?thesis by simp
qed

lemma bound_heap_attrs: "get_attrs (bound_heap t) 2 = Inr (fresh_attrs t)"
  by (simp add: get_attrs_def bound_heap_def)

theorem trace_length_after_pairs_witness:
  "get_attrs (bound_heap 0) 2 = Inr (fresh_attrs 0)
   \<and> analog_input (fresh_attrs 0) = [] \<and> analog_grad_output (fresh_attrs 0) = []
   \<and> (\<exists>h'. run_pairs nm0 2 0 [(tensor_A, False, tensor_B), (tensor_B, True, tensor_A)]
              (bound_heap 0) = Inr h'
         \<and> length (fst (traces h' 2)) = 2 \<and> length (snd (traces h' 2)) = 2
         \<and> has_gradient 2 h' = Inr True)"
proof -
  have a: "get_attrs (bound_heap 0) 2 = Inr (fresh_attrs 0)" by (rule bound_heap_attrs)
  have i: "analog_input (fresh_attrs 0) = []" and g: "analog_grad_output (fresh_attrs 0) = []"
    by (simp_all add: fresh_attrs_def)
  from trace_length_after_pairs[OF a i g,
         of nm0 0 "[(tensor_A, False, tensor_B), (tensor_B, True, tensor_A)]"]
  show ?thesis using a i g by (simp add: numeral_2_eq_2 del: run_pairs.simps)
qed

section \<open>Reset and copies\<close>

text \<open>
  C6. \<^verbatim>\<open>reset\<close> on a context, whatever its traces hold, leaves both traces empty; when a
  tile is supplied, the context afterwards points at that tile and the tile's
  \<^verbatim>\<open>analog_ctx\<close> points back at this same context.
\<close>

theorem reset_clears_and_rebinds:
  assumes "get_attrs h self = Inr a"
  shows "\<exists>h' a'. reset self tile_arg h = Inr h' \<and> traces h' self = ([], [])
           \<and> get_attrs h' self = Inr a'
           \<and> analog_input a' = [] \<and> analog_grad_output a' = []
           \<and> (\<forall>t. tile_arg = Some t \<longrightarrow>
                  analog_tile a' = Some t \<and> analog_ctx (tiles h' t) = Some self)"
  using get_attrs_InrD[OF assms] assms
  by (cases tile_arg)
     (simp_all add: reset_def get_attrs_set_attrs get_attrs_upd_tile traces_set_attrs
        traces_upd_tile upd_tile_simps set_attrs_simps)

theorem reset_clears_and_rebinds_witness:
  "get_attrs (bound_heap 0) 2 = Inr (fresh_attrs 0)
   \<and> (\<exists>h' a'. reset 2 (Some 1) (bound_heap 0) = Inr h' \<and> traces h' 2 = ([], [])
          \<and> get_attrs h' 2 = Inr a'
          \<and> analog_input a' = [] \<and> analog_grad_output a' = []
          \<and> analog_tile a' = Some 1 \<and> analog_ctx (tiles h' 1) = Some 2)"
proof -
  have a: "get_attrs (bound_heap 0) 2 = Inr (fresh_attrs 0)" by (rule bound_heap_attrs)
  from reset_clears_and_rebinds[OF a, of "Some 1"] a show ?thesis by simp
qed

text \<open>
  C7. \<^verbatim>\<open>__copy__\<close> and \<^verbatim>\<open>__deepcopy__\<close> of a context both return a new object of class
  \<^verbatim>\<open>Parameter\<close>: it has no instance attributes (no tile reference, no traces), and its
  data is the data of the source at the moment of copying.
\<close>

theorem copy_is_plain_parameter:
  assumes "get_attrs h self = Inr a"
  shows "\<exists>r h'. copy self h = Inr (r, h') \<and> deepcopy self h = Inr (r, h')
           \<and> objs h' r = \<lparr>cls = ParameterCls, data = data (objs h self),
                           requires_grad = True, inst = None\<rparr>
           \<and> get_attrs h' r = Inl AttributeError
           \<and> traces h' r = ([], [])"
  using get_attrs_InrD[OF assms]
  by (simp add: copy_def deepcopy_def new_parameter_def get_attrs_def traces_def)

theorem copy_is_plain_parameter_witness:
  "get_attrs (bound_heap 0) 2 = Inr (fresh_attrs 0)
   \<and> (\<exists>r h'. copy 2 (bound_heap 0) = Inr (r, h') \<and> deepcopy 2 (bound_heap 0) = Inr (r, h')
          \<and> objs h' r = \<lparr>cls = ParameterCls, data = tensor_W,
                          requires_grad = True, inst = None\<rparr>
          \<and> get_attrs h' r = Inl AttributeError
          \<and> traces h' r = ([], []))"
proof -
  have a: "get_attrs (bound_heap 0) 2 = Inr (fresh_attrs 0)" by (rule bound_heap_attrs)
  have d: "data (objs (bound_heap 0) 2) = tensor_W"
    by (simp add: bound_heap_def heap0_def host_tile_def)
  from copy_is_plain_parameter[OF a] a d show ?thesis by simp
qed


section \<open>Direct mode\<close>

lemma forward_backward_direct:
  assumes "get_attrs h c = Inr a"
  shows "\<exists>r h' vs. forward_backward nm c t x (Some w) it g h = Inr (r, h')
           \<and> get_attrs h' c = Inr (a\<lparr>use_torch_update := True\<rparr>)
           \<and> grad_shared_weights r = Some (w\<lparr>vals := vs\<rparr>)
           \<and> delta_weights (tiles h' t) = None
           \<and> device (tiles h' t) = device (tiles h t)
           \<and> calls (tiles h' t) = calls (tiles h t)
                @ [EnsureSharedWeights w,
                   if use_indexed a then JointForwardIndexed x it else JointForward x it,
                   EnsureSharedWeights w,
                   if use_indexed a then BackwardIndexed g else Backward g,
                   SetDeltaWeights (w\<lparr>vals := []\<rparr>),
                   (if use_indexed a then UpdateIndexed else Update)
                     (if offload_input (tiles h t)
                      then tensor_to_device (tensor_cpu x) (device (tiles h t)) else x) g,
                   ResetDeltaWeights]"
proof -
  note c = get_attrs_InrD[OF assms]
  define s :: fctx where "s = \<lparr>ctx_analog_ctx = c, ctx_analog_tile = t,
               ctx_shared_weights = Some w,
               saved_tensors = [if offload_input (tiles h t) then tensor_cpu x else x],
               saved_analog_tensors = []\<rparr>"
  define jf where "jf = (if use_indexed a then joint_forward_indexed else joint_forward)"
  define h0 where "h0 = upd_tile t (ensure_shared_weights w) h"
  define h1 where "h1 = upd_tile t (\<lambda>tl. snd (jf nm x it tl))
                (set_attrs c (a\<lparr>use_torch_update := True\<rparr>) h0)"
  have f: "forward nm c t x (Some w) it h = Inr (fst (jf nm x it (tiles h0 t)), s, h1)"
    by (simp add: forward_eq[OF assms] s_def jf_def h1_def h0_def Let_def)
  have a1: "get_attrs h1 (ctx_analog_ctx s) = Inr (a\<lparr>use_torch_update := True\<rparr>)"
    using c by (simp add: h1_def h0_def s_def get_attrs_upd_tile get_attrs_set_attrs upd_tile_simps)
  have sv: "saved_tensors s = (if offload_input (tiles h t) then tensor_cpu x else x) # []"
    by (simp add: s_def)
  have u: "use_torch_update (a\<lparr>use_torch_update := True\<rparr>)" by simp
  have sw: "ctx_shared_weights s = Some w" by (simp add: s_def)
  have cs: "ctx_analog_ctx s = c" "ctx_analog_tile s = t"
    by (simp_all add: s_def)
  have cl: "cls (objs h1 c) = AnalogContextCls" "inst (objs h1 c) = Some (a\<lparr>use_torch_update := True\<rparr>)"
    using c by (simp_all add: h1_def h0_def upd_tile_simps set_attrs_simps)
  have t1: "offload_input (tiles h1 t) = offload_input (tiles h t)"
           "device (tiles h1 t) = device (tiles h t)"
           "calls (tiles h1 t) = calls (tiles h t) @ [EnsureSharedWeights w,
                   if use_indexed a then JointForwardIndexed x it else JointForward x it]"
    by (simp_all add: h1_def h0_def jf_def upd_tile_simps set_attrs_simps tile_defs)
  show ?thesis
    unfolding forward_backward_def f
    using cl t1
    by (auto simp add: backward_direct_eq[OF a1 sv u sw] Let_def cs get_attrs_def
         upd_tile_simps tile_defs)
qed

text \<open>
  C3. A forward/backward pair with shared weights \<open>w\<close> on a context whose traces are
  empty returns; afterwards the traces are still empty, the weight gradient returned is
  a tensor of the shape of \<open>w\<close>, the tile's call log ends with binding the delta-weight
  target, the update call, and clearing the target, in that order, and the tile has no
  delta-weight target left.
\<close>

theorem shared_weights_pair:
  assumes "get_attrs h c = Inr a" and "analog_input a = []" and "analog_grad_output a = []"
  shows "\<exists>r h' b x1 pre. forward_backward nm c t x (Some w) is_test g h = Inr (r, h')
           \<and> traces h' c = ([], [])
           \<and> grad_shared_weights r = Some b \<and> shape b = shape w
           \<and> calls (tiles h' t) = pre
                @ [SetDeltaWeights (w\<lparr>vals := []\<rparr>),
                   (if use_indexed a then UpdateIndexed else Update) x1 g,
                   ResetDeltaWeights]
           \<and> delta_weights (tiles h' t) = None"
proof -
  from forward_backward_direct[OF assms(1), of nm t x w is_test g]
  obtain r h' vs where fb: "forward_backward nm c t x (Some w) is_test g h = Inr (r, h')"
    and a': "get_attrs h' c = Inr (a\<lparr>use_torch_update := True\<rparr>)"
    and b: "grad_shared_weights r = Some (w\<lparr>vals := vs\<rparr>)"
    and d: "delta_weights (tiles h' t) = None"
    and cl: "calls (tiles h' t) = calls (tiles h t)
                @ [EnsureSharedWeights w,
                   if use_indexed a then JointForwardIndexed x is_test else JointForward x is_test,
                   EnsureSharedWeights w,
                   if use_indexed a then BackwardIndexed g else Backward g,
                   SetDeltaWeights (w\<lparr>vals := []\<rparr>),
                   (if use_indexed a then UpdateIndexed else Update)
                     (if offload_input (tiles h t)
                      then tensor_to_device (tensor_cpu x) (device (tiles h t)) else x) g,
                   ResetDeltaWeights]"
    by blast
  have tr: "traces h' c = ([], [])"
    using traces_of_attrs[OF a'] assms(2,3) by simp
  have cl': "calls (tiles h' t) =
      (calls (tiles h t)
         @ [EnsureSharedWeights w,
            if use_indexed a then JointForwardIndexed x is_test else JointForward x is_test,
            EnsureSharedWeights w,
            if use_indexed a then BackwardIndexed g else Backward g])
      @ [SetDeltaWeights (w\<lparr>vals := []\<rparr>),
         (if use_indexed a then UpdateIndexed else Update)
           (if offload_input (tiles h t)
            then tensor_to_device (tensor_cpu x) (device (tiles h t)) else x) g,
         ResetDeltaWeights]"
    using cl by simp
  have sh: "shape (w\<lparr>vals := vs\<rparr>) = shape w" by simp
  from fb tr b sh cl' d show ?thesis by blast
qed

theorem shared_weights_pair_witness:
  "get_attrs (bound_heap 0) 2 = Inr (fresh_attrs 0)
   \<and> analog_input (fresh_attrs 0) = [] \<and> analog_grad_output (fresh_attrs 0) = []
   \<and> (\<exists>r h' b x1 pre.
         forward_backward nm0 2 0 tensor_A (Some tensor_W) False tensor_B (bound_heap 0)
           = Inr (r, h')
         \<and> traces h' 2 = ([], [])
         \<and> grad_shared_weights r = Some b \<and> shape b = [3, 2]
         \<and> calls (tiles h' 0) = pre
              @ [SetDeltaWeights (tensor_W\<lparr>vals := []\<rparr>), Update x1 tensor_B, ResetDeltaWeights]
         \<and> delta_weights (tiles h' 0) = None)"
proof -
  have a: "get_attrs (bound_heap 0) 2 = Inr (fresh_attrs 0)" by (rule bound_heap_attrs)
  have i: "analog_input (fresh_attrs 0) = []" and g: "analog_grad_output (fresh_attrs 0) = []"
    and u: "\<not> use_indexed (fresh_attrs 0)"
    by (simp_all add: fresh_attrs_def)
  have s: "shape tensor_W = [3, 2]" by (simp add: tensor_W_def)
  from shared_weights_pair[OF a i g, of nm0 0 tensor_A tensor_W False tensor_B]
  show ?thesis using a i g u s by simp
qed

lemmas double_defs = bound_heap_def heap0_def fresh_attrs_def host_tile_def cuda_tile_def
  nm0_def tensor_A_def tensor_B_def tensor_W_def

lemmas run_defs = forward_def backward_def Let_def get_attrs_def set_attrs_def upd_obj_def
  upd_tile_def empty_like_def cpu_first_def tensor_cpu_def tensor_to_device_def

section \<open>The input gradient\<close>

text \<open>
  C4, as stated, fails: after a \<^verbatim>\<open>forward\<close> without shared weights and a second
  \<^verbatim>\<open>forward\<close> with shared weights on the same context, the \<^verbatim>\<open>backward\<close> of the first
  finds the context in direct mode, has no shared weights of its own to size the
  gradient buffer, and raises \<^verbatim>\<open>TypeError\<close>: no input gradient is returned.
\<close>

theorem backward_raises_without_shared_weights:
  "interleaved nm0 2 0 tensor_A None tensor_A (Some tensor_W) tensor_B (bound_heap 0)
     = Inl TypeError"
  by (simp add: interleaved_def run_defs tile_defs double_defs)

text \<open>
  C4, amended. A \<^verbatim>\<open>backward\<close> call whose saved state holds an input raises
  \<^verbatim>\<open>TypeError\<close> when the context is in direct mode and the saved state has no shared
  weights; every other call returns, in direct and in deferred mode alike, and the slot
  of the input holds the result of the tile's backward routine, indexed or plain as
  \<^verbatim>\<open>use_indexed\<close> says.
\<close>

theorem grad_input_returned:
  assumes "get_attrs h (ctx_analog_ctx s) = Inr a" and "saved_tensors s = x # xs"
  shows "(use_torch_update a \<and> ctx_shared_weights s = None \<longrightarrow>
            backward nm s g h = Inl TypeError)
       \<and> (\<not> (use_torch_update a \<and> ctx_shared_weights s = None) \<longrightarrow>
            (\<exists>r s' h'. backward nm s g h = Inr (r, s', h')
               \<and> grad_input r =
                   Some (fst ((if use_indexed a then tile_backward_indexed else tile_backward)
                      nm g
                      (tiles (case ctx_shared_weights s of
                                Some w \<Rightarrow> upd_tile (ctx_analog_tile s) (ensure_shared_weights w) h
                              | None \<Rightarrow> h) (ctx_analog_tile s))))
               \<and> (if use_indexed a then BackwardIndexed g else Backward g)
                   \<in> set (calls (tiles h' (ctx_analog_tile s)))))"
proof (cases "use_torch_update a")
  case False
  show ?thesis
    using False
    by (cases "ctx_shared_weights s")
       (simp_all add: backward_deferred_eq[OF assms False] Let_def upd_tile_simps
          set_attrs_simps tile_defs)
next
  case True
  show ?thesis
  proof (cases "ctx_shared_weights s")
    case None
    with True backward_type_error[OF assms True None] show ?thesis by simp
  next
    case (Some w)
    show ?thesis
      using True Some
      by (simp add: backward_direct_eq[OF assms True Some] Let_def upd_tile_simps tile_defs)
  qed
qed

theorem grad_input_returned_witness:
  "get_attrs (bound_heap 0) (ctx_analog_ctx saved_A) = Inr (fresh_attrs 0)
   \<and> saved_tensors saved_A = tensor_A # []
   \<and> \<not> (use_torch_update (fresh_attrs 0) \<and> ctx_shared_weights saved_A = None)
   \<and> (\<exists>r s' h'. backward nm0 saved_A tensor_B (bound_heap 0) = Inr (r, s', h')
          \<and> grad_input r = Some (tensor_A\<lparr>vals := [3, 4]\<rparr>)
          \<and> Backward tensor_B \<in> set (calls (tiles h' 0)))"
proof -
  have a: "get_attrs (bound_heap 0) (ctx_analog_ctx saved_A) = Inr (fresh_attrs 0)"
    by (simp add: saved_A_def bound_heap_attrs)
  have sv: "saved_tensors saved_A = tensor_A # []" by (simp add: saved_A_def)
  have f: "\<not> use_torch_update (fresh_attrs 0)" "\<not> use_indexed (fresh_attrs 0)"
    "ctx_shared_weights saved_A = None" "ctx_analog_tile saved_A = 0"
    by (simp_all add: fresh_attrs_def saved_A_def)
  have v: "fst (tile_backward nm0 tensor_B (tiles (bound_heap 0) 0)) = tensor_A\<lparr>vals := [3, 4]\<rparr>"
    by (simp add: tile_backward_def nm0_def)
  from grad_input_returned[OF a sv, of nm0 tensor_B]
  show ?thesis using a sv f v by simp
qed

section \<open>Offloaded inputs\<close>

text \<open>
  C5, as stated, fails in deferred mode: on an accelerator tile whose runtime offloads
  inputs, the tensor appended to \<^verbatim>\<open>analog_input\<close> is on the host, not on the tile's
  device.
\<close>

theorem deferred_trace_input_stays_on_host:
  "offload_input (tiles (bound_heap 1) 1)
   \<and> (case forward_backward nm0 2 1 tensor_A None False tensor_B (bound_heap 1) of
         Inl e \<Rightarrow> None
       | Inr (r, h') \<Rightarrow> Some (map dev (fst (traces h' 2)), device (tiles h' 1)))
      = Some ([Cpu], Cuda 0)"
  by (simp add: forward_backward_def traces_def run_defs tile_defs double_defs)

text \<open>
  C5, amended. With the input-offload flag set, the saved input is on the host. In direct
  mode \<^verbatim>\<open>backward\<close> moves it onto the tile's device and the update routine receives
  that device-resident tensor; in deferred mode the tensor appended to \<^verbatim>\<open>analog_input\<close>
  is the saved host-resident input, not moved.
\<close>

theorem offloaded_input_use:
  assumes "get_attrs h c = Inr a" and "offload_input (tiles h t)"
  shows "(\<exists>r h' pre x1. forward_backward nm c t x (Some w) is_test g h = Inr (r, h')
            \<and> x1 = tensor_to_device (tensor_cpu x) (device (tiles h' t))
            \<and> dev x1 = device (tiles h' t)
            \<and> calls (tiles h' t) = pre
                 @ [(if use_indexed a then UpdateIndexed else Update) x1 g, ResetDeltaWeights])
       \<and> (\<exists>r h'. forward_backward nm c t x None is_test g h = Inr (r, h')
            \<and> fst (traces h' c) = analog_input a @ [tensor_cpu x]
            \<and> dev (last (fst (traces h' c))) = Cpu)"
proof -
  from forward_backward_direct[OF assms(1), of nm t x w is_test g]
  obtain r h' vs where fb: "forward_backward nm c t x (Some w) is_test g h = Inr (r, h')"
    and dv: "device (tiles h' t) = device (tiles h t)"
    and cl: "calls (tiles h' t) = calls (tiles h t)
                @ [EnsureSharedWeights w,
                   if use_indexed a then JointForwardIndexed x is_test else JointForward x is_test,
                   EnsureSharedWeights w,
                   if use_indexed a then BackwardIndexed g else Backward g,
                   SetDeltaWeights (w\<lparr>vals := []\<rparr>),
                   (if use_indexed a then UpdateIndexed else Update)
                     (if offload_input (tiles h t)
                      then tensor_to_device (tensor_cpu x) (device (tiles h t)) else x) g,
                   ResetDeltaWeights]"
    by blast
  have cl': "calls (tiles h' t) =
      (calls (tiles h t)
         @ [EnsureSharedWeights w,
            if use_indexed a then JointForwardIndexed x is_test else JointForward x is_test,
            EnsureSharedWeights w,
            if use_indexed a then BackwardIndexed g else Backward g,
            SetDeltaWeights (w\<lparr>vals := []\<rparr>)])
      @ [(if use_indexed a then UpdateIndexed else Update)
           (tensor_to_device (tensor_cpu x) (device (tiles h' t))) g,
         ResetDeltaWeights]"
    using cl assms(2) dv by simp
  have d1: "dev (tensor_to_device (tensor_cpu x) (device (tiles h' t))) = device (tiles h' t)"
    by (simp add: tensor_to_device_def)
  from fb cl' d1 have direct:
    "\<exists>r h' pre x1. forward_backward nm c t x (Some w) is_test g h = Inr (r, h')
            \<and> x1 = tensor_to_device (tensor_cpu x) (device (tiles h' t))
            \<and> dev x1 = device (tiles h' t)
            \<and> calls (tiles h' t) = pre
                 @ [(if use_indexed a then UpdateIndexed else Update) x1 g, ResetDeltaWeights]"
    by blast
  from forward_backward_deferred[OF assms(1), of nm t x is_test g]
  obtain r2 h2 where fb2: "forward_backward nm c t x None is_test g h = Inr (r2, h2)"
    and a2: "get_attrs h2 c =
               Inr (a\<lparr>use_torch_update := False,
                      analog_input := analog_input a
                        @ [if offload_input (tiles h t) then tensor_cpu x else x],
                      analog_grad_output := analog_grad_output a
                        @ [if offload_gradient (tiles h t) then tensor_cpu g else g]\<rparr>)"
    by blast
  have tr: "fst (traces h2 c) = analog_input a @ [tensor_cpu x]"
    using traces_of_attrs[OF a2] assms(2) by simp
  have "dev (last (fst (traces h2 c))) = Cpu"
    by (simp add: tr tensor_cpu_def)
  with fb2 tr direct show ?thesis by blast
qed

theorem offloaded_input_use_witness:
  "get_attrs (bound_heap 1) 2 = Inr (fresh_attrs 1) \<and> offload_input (tiles (bound_heap 1) 1)
   \<and> (\<exists>r h' pre x1.
         forward_backward nm0 2 1 tensor_A (Some tensor_W) False tensor_B (bound_heap 1)
           = Inr (r, h')
         \<and> dev x1 = Cuda 0
         \<and> calls (tiles h' 1) = pre @ [Update x1 tensor_B, ResetDeltaWeights])
   \<and> (\<exists>r h'. forward_backward nm0 2 1 tensor_A None False tensor_B (bound_heap 1) = Inr (r, h')
         \<and> fst (traces h' 2) = [tensor_A\<lparr>dev := Cpu\<rparr>])"
proof -
  have a: "get_attrs (bound_heap 1) 2 = Inr (fresh_attrs 1)" by (rule bound_heap_attrs)
  have o: "offload_input (tiles (bound_heap 1) 1)"
    by (simp add: bound_heap_def heap0_def cuda_tile_def)
  have f: "\<not> use_indexed (fresh_attrs 1)" "analog_input (fresh_attrs 1) = []"
    by (simp_all add: fresh_attrs_def)
  from offloaded_input_use[OF a o, of nm0 tensor_A tensor_W False tensor_B]
  obtain r h' pre x1 r2 h2 where
    1: "forward_backward nm0 2 1 tensor_A (Some tensor_W) False tensor_B (bound_heap 1) = Inr (r, h')"
    and 2: "x1 = tensor_to_device (tensor_cpu tensor_A) (device (tiles h' 1))"
    and 3: "calls (tiles h' 1) = pre @ [Update x1 tensor_B, ResetDeltaWeights]"
    and 4: "forward_backward nm0 2 1 tensor_A None False tensor_B (bound_heap 1) = Inr (r2, h2)"
    and 5: "fst (traces h2 2) = [tensor_cpu tensor_A]"
    using f by auto
  have dv: "device (tiles h' 1) = Cuda 0"
    using 1 by (auto simp add: forward_backward_def run_defs tile_defs double_defs)
  have "dev x1 = Cuda 0" using 2 dv by (simp add: tensor_to_device_def)
  with 1 3 4 5 a o show ?thesis by (auto simp: tensor_cpu_def)
qed


section \<open>Construction\<close>

text \<open>
  C9, as stated, fails on the re-attach path: a parameter built with
  \<^verbatim>\<open>requires_grad=False\<close> is relabelled as a context and is still not gradient-tracked.
\<close>

theorem reattach_keeps_requires_grad:
  "\<not> requires_grad (objs heap0 1)
   \<and> (case construct (Some 0) (Some 1) heap0 of
         Inl e \<Rightarrow> None
       | Inr (r, h') \<Rightarrow> Some (r, cls (objs h' r), requires_grad (objs h' r)))
      = Some (1, AnalogContextCls, False)"
  by (simp add: construct_def AnalogContext_new_def AnalogContext_init_def reset_def
        run_defs double_defs)

text \<open>
  C9, amended. Construction on a tile returns a context whose \<^verbatim>\<open>analog_tile\<close> is that
  tile and whose tile points back at it. On the fresh path the context is a new object
  holding the tile's weights, gradient-tracked; on the re-attach path it is the given
  object, with its data and its \<^verbatim>\<open>requires_grad\<close> flag as they were.
\<close>

theorem construct_binds:
  "(\<exists>r h' a. construct (Some t) None h = Inr (r, h')
       \<and> requires_grad (objs h' r) \<and> data (objs h' r) = get_weights (tiles h t)
       \<and> get_attrs h' r = Inr a \<and> analog_tile a = Some t
       \<and> analog_ctx (tiles h' t) = Some r)
   \<and> (\<exists>h' a. construct (Some t) (Some p) h = Inr (p, h')
       \<and> requires_grad (objs h' p) = requires_grad (objs h p)
       \<and> data (objs h' p) = data (objs h p)
       \<and> get_attrs h' p = Inr a \<and> analog_tile a = Some t
       \<and> analog_ctx (tiles h' t) = Some p)"
  by (simp add: construct_def AnalogContext_new_def AnalogContext_init_def reset_def
        get_attrs_def set_attrs_def upd_obj_def upd_tile_def)

theorem construct_binds_witness:
  "(\<exists>r h' a. construct (Some 0) None heap0 = Inr (r, h')
       \<and> requires_grad (objs h' r) \<and> data (objs h' r) = tensor_W
       \<and> get_attrs h' r = Inr a \<and> analog_tile a = Some 0
       \<and> analog_ctx (tiles h' 0) = Some r)
   \<and> (\<exists>h' a. construct (Some 0) (Some 1) heap0 = Inr (1, h')
       \<and> requires_grad (objs h' 1) = False
       \<and> get_attrs h' 1 = Inr a \<and> analog_tile a = Some 0
       \<and> analog_ctx (tiles h' 0) = Some 1)"
proof -
  have w: "get_weights (tiles heap0 0) = tensor_W" "requires_grad (objs heap0 1) = False"
    by (simp_all add: get_weights_def heap0_def host_tile_def)
  from construct_binds[of 0 heap0 1] w show ?thesis by auto
qed

section \<open>Flags at the time of backward\<close>

lemma backward_Inr_saved:
  "backward nm s g h = Inr z \<Longrightarrow> \<exists>x xs. saved_tensors s = x # xs"
  by (cases "saved_tensors s") (simp_all add: backward_def Let_def)

lemma backward_by_flags:
  assumes a: "get_attrs h (ctx_analog_ctx s) = Inr a"
    and b: "backward nm s g h = Inr (r, s', h')"
  shows "(grad_shared_weights r \<noteq> None) = use_torch_update a"
    and "\<exists>x e. traces h' (ctx_analog_ctx s) =
           (if use_torch_update a then traces h (ctx_analog_ctx s)
            else (analog_input a @ [x], analog_grad_output a @ [e]))"
    and "\<exists>buf x1. calls (tiles h' (ctx_analog_tile s)) =
           calls (tiles h (ctx_analog_tile s))
           @ (case ctx_shared_weights s of Some w \<Rightarrow> [EnsureSharedWeights w] | None \<Rightarrow> [])
           @ [if use_indexed a then BackwardIndexed g else Backward g]
           @ (if use_torch_update a
              then [SetDeltaWeights buf,
                    (if use_indexed a then UpdateIndexed else Update) x1 g,
                    ResetDeltaWeights]
              else [])"
proof -
  from backward_Inr_saved[OF b] obtain x xs where sv: "saved_tensors s = x # xs" by blast
  note c = get_attrs_InrD[OF a]
  have "(grad_shared_weights r \<noteq> None) = use_torch_update a
    \<and> (\<exists>x e. traces h' (ctx_analog_ctx s) =
           (if use_torch_update a then traces h (ctx_analog_ctx s)
            else (analog_input a @ [x], analog_grad_output a @ [e])))
    \<and> (\<exists>buf x1. calls (tiles h' (ctx_analog_tile s)) =
           calls (tiles h (ctx_analog_tile s))
           @ (case ctx_shared_weights s of Some w \<Rightarrow> [EnsureSharedWeights w] | None \<Rightarrow> [])
           @ [if use_indexed a then BackwardIndexed g else Backward g]
           @ (if use_torch_update a
              then [SetDeltaWeights buf,
                    (if use_indexed a then UpdateIndexed else Update) x1 g,
                    ResetDeltaWeights]
              else []))"
  proof (cases "use_torch_update a")
    case False
    from b show ?thesis
      unfolding backward_deferred_eq[OF a sv False] Let_def
      using False c
      by (cases "ctx_shared_weights s")
         (auto simp add: traces_set_attrs upd_tile_simps set_attrs_simps tile_defs)
  next
    case True
    show ?thesis
    proof (cases "ctx_shared_weights s")
      case None
      from backward_type_error[OF a sv True None] b show ?thesis by simp
    next
      case (Some w)
      from b show ?thesis
        unfolding backward_direct_eq[OF a sv True Some] Let_def
        using True Some
        by (auto simp add: traces_def upd_tile_simps tile_defs)
    qed
  qed
  then show "(grad_shared_weights r \<noteq> None) = use_torch_update a"
    and "\<exists>x e. traces h' (ctx_analog_ctx s) =
           (if use_torch_update a then traces h (ctx_analog_ctx s)
            else (analog_input a @ [x], analog_grad_output a @ [e]))"
    and "\<exists>buf x1. calls (tiles h' (ctx_analog_tile s)) =
           calls (tiles h (ctx_analog_tile s))
           @ (case ctx_shared_weights s of Some w \<Rightarrow> [EnsureSharedWeights w] | None \<Rightarrow> [])
           @ [if use_indexed a then BackwardIndexed g else Backward g]
           @ (if use_torch_update a
              then [SetDeltaWeights buf,
                    (if use_indexed a then UpdateIndexed else Update) x1 g,
                    ResetDeltaWeights]
              else [])"
    by blast+
qed

lemma forward_flags:
  assumes "get_attrs h c = Inr a" and "forward nm c t x sh it h = Inr (out, s, h1)"
  shows "get_attrs h1 c = Inr (a\<lparr>use_torch_update := (sh \<noteq> None)\<rparr>)"
    and "traces h1 c = traces h c"
  using assms(2) get_attrs_InrD[OF assms(1)]
  unfolding forward_eq[OF assms(1)] Let_def
  by (auto simp add: get_attrs_upd_tile get_attrs_set_attrs upd_tile_simps traces_upd_tile
        traces_set_attrs traces_of_attrs[OF assms(1)] split: option.split)

text \<open>
  C10. A \<^verbatim>\<open>backward\<close> call that returns has chosen its tile routine by the context's
  \<^verbatim>\<open>use_indexed\<close> and its update mode by the context's \<^verbatim>\<open>use_torch_update\<close> as they
  stand in the store at the call: a weight gradient is returned and the traces are left
  alone exactly in direct mode, one pair is appended exactly in deferred mode. So after
  another \<^verbatim>\<open>forward\<close> on the same context, the \<^verbatim>\<open>backward\<close> of any earlier saved
  state follows that later \<^verbatim>\<open>forward\<close>: direct exactly when the later call had shared
  weights.
\<close>

theorem backward_follows_current_flags:
  "(get_attrs h (ctx_analog_ctx s) = Inr a \<and> backward nm s g h = Inr (r, s', h') \<longrightarrow>
      (grad_shared_weights r \<noteq> None) = use_torch_update a
      \<and> (\<exists>x e. traces h' (ctx_analog_ctx s) =
            (if use_torch_update a then traces h (ctx_analog_ctx s)
             else (analog_input a @ [x], analog_grad_output a @ [e])))
      \<and> (\<exists>buf x1. calls (tiles h' (ctx_analog_tile s)) =
            calls (tiles h (ctx_analog_tile s))
            @ (case ctx_shared_weights s of Some w \<Rightarrow> [EnsureSharedWeights w] | None \<Rightarrow> [])
            @ [if use_indexed a then BackwardIndexed g else Backward g]
            @ (if use_torch_update a
               then [SetDeltaWeights buf,
                     (if use_indexed a then UpdateIndexed else Update) x1 g,
                     ResetDeltaWeights]
               else [])))
   \<and> (get_attrs h0 c = Inr a0 \<and> forward nm c t x2 sh2 it2 h0 = Inr (out2, s2, h2)
        \<and> ctx_analog_ctx s1 = c \<and> backward nm s1 g1 h2 = Inr (r1, s1', h3) \<longrightarrow>
      (grad_shared_weights r1 \<noteq> None) = (sh2 \<noteq> None)
      \<and> length (fst (traces h3 c)) = length (analog_input a0) + (if sh2 = None then 1 else 0)
      \<and> (if use_indexed a0 then BackwardIndexed g1 else Backward g1)
           \<in> set (calls (tiles h3 (ctx_analog_tile s1))))"
proof (intro conjI impI)
  assume "get_attrs h (ctx_analog_ctx s) = Inr a \<and> backward nm s g h = Inr (r, s', h')"
  then have a: "get_attrs h (ctx_analog_ctx s) = Inr a"
    and b: "backward nm s g h = Inr (r, s', h')" by simp_all
  show "(grad_shared_weights r \<noteq> None) = use_torch_update a"
    by (rule backward_by_flags(1)[OF a b])
  show "\<exists>x e. traces h' (ctx_analog_ctx s) =
            (if use_torch_update a then traces h (ctx_analog_ctx s)
             else (analog_input a @ [x], analog_grad_output a @ [e]))"
    by (rule backward_by_flags(2)[OF a b])
  show "\<exists>buf x1. calls (tiles h' (ctx_analog_tile s)) =
            calls (tiles h (ctx_analog_tile s))
            @ (case ctx_shared_weights s of Some w \<Rightarrow> [EnsureSharedWeights w] | None \<Rightarrow> [])
            @ [if use_indexed a then BackwardIndexed g else Backward g]
            @ (if use_torch_update a
               then [SetDeltaWeights buf,
                     (if use_indexed a then UpdateIndexed else Update) x1 g,
                     ResetDeltaWeights]
               else [])"
    by (rule backward_by_flags(3)[OF a b])
next
  assume asm: "get_attrs h0 c = Inr a0 \<and> forward nm c t x2 sh2 it2 h0 = Inr (out2, s2, h2)
        \<and> ctx_analog_ctx s1 = c \<and> backward nm s1 g1 h2 = Inr (r1, s1', h3)"
  then have a0: "get_attrs h0 c = Inr a0"
    and f: "forward nm c t x2 sh2 it2 h0 = Inr (out2, s2, h2)"
    and c: "ctx_analog_ctx s1 = c"
    and b: "backward nm s1 g1 h2 = Inr (r1, s1', h3)" by simp_all
  define a2 where "a2 = a0\<lparr>use_torch_update := (sh2 \<noteq> None)\<rparr>"
  from forward_flags(1)[OF a0 f] c
  have a2: "get_attrs h2 (ctx_analog_ctx s1) = Inr a2" by (simp add: a2_def)
  have tr2: "traces h2 c = (analog_input a0, analog_grad_output a0)"
    using forward_flags(2)[OF a0 f] traces_of_attrs[OF a0] by simp
  have fl: "use_torch_update a2 = (sh2 \<noteq> None)" "use_indexed a2 = use_indexed a0"
    "analog_input a2 = analog_input a0"
    by (simp_all add: a2_def)
  from backward_by_flags(1)[OF a2 b] fl
  show "(grad_shared_weights r1 \<noteq> None) = (sh2 \<noteq> None)" by simp
  from backward_by_flags(2)[OF a2 b] fl c tr2
  show "length (fst (traces h3 c)) = length (analog_input a0) + (if sh2 = None then 1 else 0)"
    by (cases sh2) auto
  from backward_by_flags(3)[OF a2 b] fl
  show "(if use_indexed a0 then BackwardIndexed g1 else Backward g1)
           \<in> set (calls (tiles h3 (ctx_analog_tile s1)))"
    by auto
qed

lemma forward_saved:
  assumes "get_attrs h c = Inr a" and "forward nm c t x sh it h = Inr (out, s, h1)"
  shows "s = \<lparr>ctx_analog_ctx = c, ctx_analog_tile = t, ctx_shared_weights = sh,
               saved_tensors = [if offload_input (tiles h t) then tensor_cpu x else x],
               saved_analog_tensors = []\<rparr>"
  using assms(2) unfolding forward_eq[OF assms(1)] Let_def by simp

theorem backward_follows_current_flags_witness:
  "\<exists>out1 s1 h1 out2 s2 h2 r s' h3.
      forward nm0 2 0 tensor_A (Some tensor_W) False (bound_heap 0) = Inr (out1, s1, h1)
    \<and> ctx_shared_weights s1 = Some tensor_W
    \<and> forward nm0 2 0 tensor_A None False h1 = Inr (out2, s2, h2)
    \<and> backward nm0 s1 tensor_B h2 = Inr (r, s', h3)
    \<and> grad_shared_weights r = None
    \<and> length (fst (traces h3 2)) = 1
    \<and> Backward tensor_B \<in> set (calls (tiles h3 0))"
proof -
  have a0: "get_attrs (bound_heap 0) 2 = Inr (fresh_attrs 0)" by (rule bound_heap_attrs)
  have "\<exists>out1 s1 h1.
      forward nm0 2 0 tensor_A (Some tensor_W) False (bound_heap 0) = Inr (out1, s1, h1)"
    by (simp add: forward_eq[OF a0] Let_def)
  then obtain out1 s1 h1 where
    f1: "forward nm0 2 0 tensor_A (Some tensor_W) False (bound_heap 0) = Inr (out1, s1, h1)"
    by blast
  define a1 where "a1 = (fresh_attrs 0)\<lparr>use_torch_update := True\<rparr>"
  have a1: "get_attrs h1 2 = Inr a1"
    using forward_flags(1)[OF a0 f1] by (simp add: a1_def)
  note s1 = forward_saved[OF a0 f1]
  have "\<exists>out2 s2 h2. forward nm0 2 0 tensor_A None False h1 = Inr (out2, s2, h2)"
    by (simp add: forward_eq[OF a1] Let_def)
  then obtain out2 s2 h2 where
    f2: "forward nm0 2 0 tensor_A None False h1 = Inr (out2, s2, h2)"
    by blast
  define a2 where "a2 = a1\<lparr>use_torch_update := False\<rparr>"
  have a2: "get_attrs h2 (ctx_analog_ctx s1) = Inr a2"
    using forward_flags(1)[OF a1 f2] by (simp add: a2_def s1)
  have sv: "saved_tensors s1 = tensor_A # []"
    by (simp add: s1 bound_heap_def heap0_def host_tile_def)
  have nu: "\<not> use_torch_update a2" by (simp add: a2_def)
  have "\<exists>r s' h3. backward nm0 s1 tensor_B h2 = Inr (r, s', h3)"
    by (simp add: backward_deferred_eq[OF a2 sv nu] Let_def)
  then obtain r s' h3 where b: "backward nm0 s1 tensor_B h2 = Inr (r, s', h3)" by blast
  have c: "ctx_analog_ctx s1 = 2" "ctx_analog_tile s1 = 0" "ctx_shared_weights s1 = Some tensor_W"
    by (simp_all add: s1)
  have fl: "\<not> use_indexed a1" "analog_input a1 = []"
    by (simp_all add: a1_def fresh_attrs_def)
  from backward_follows_current_flags[where ?h0.0 = h1 and c = 2 and ?a0.0 = a1 and nm = nm0
      and t = 0 and ?x2.0 = tensor_A and ?sh2.0 = None and ?it2.0 = False and ?out2.0 = out2
      and ?s2.0 = s2 and ?h2.0 = h2 and ?s1.0 = s1 and ?g1.0 = tensor_B and ?r1.0 = r
      and ?s1'.0 = s' and ?h3.0 = h3]
    a1 f2 c b fl
  have "grad_shared_weights r = None \<and> length (fst (traces h3 2)) = 1
    \<and> Backward tensor_B \<in> set (calls (tiles h3 0))"
    by simp
  with f1 f2 b c show ?thesis by blast
qed


section \<open>Moves to the host\<close>

lemma get_attrs_upd_data:
  "get_attrs (upd_obj self (\<lambda>ob. ob\<lparr>data := f ob\<rparr>) h) r = get_attrs h r"
  by (simp add: get_attrs_def upd_obj_def)

lemma traces_upd_data:
  "traces (upd_obj self (\<lambda>ob. ob\<lparr>data := f ob\<rparr>) h) r = traces h r"
  by (simp add: traces_def upd_obj_def)

lemma upd_obj_twice:
  "upd_obj self f (upd_obj self g h) = upd_obj self (\<lambda>ob. f (g ob)) h"
  by (simp add: upd_obj_def)

lemma tensor_to_value_dev:
  "to_target args kw = Some d \<Longrightarrow> dev (tensor_to_value t args kw) = d"
  by (auto simp: to_target_def tensor_to_value_def Let_def
        split: option.splits list.splits to_arg.splits)

lemma tensor_cpu_fix: "dev t = Cpu \<Longrightarrow> tensor_cpu t = t"
  by (simp add: tensor_cpu_def)

lemma tensor_cpu_idem: "tensor_cpu (tensor_cpu t) = tensor_cpu t"
  by (simp add: tensor_cpu_def)

lemma tensor_to_value_idem:
  "tensor_to_value (tensor_to_value t args kw) args kw = tensor_to_value t args kw"
  by (auto simp: tensor_to_value_def Let_def split: option.splits list.splits to_arg.splits)

lemma tensor_to_value_after_cpu:
  "to_target args kw = Some d \<Longrightarrow>
     tensor_to_value (tensor_cpu t) args kw = tensor_to_value t args kw"
  by (auto simp: to_target_def tensor_to_value_def tensor_cpu_def Let_def
        split: option.splits list.splits to_arg.splits)

lemma cpu_host:
  assumes "get_attrs h self = Inr a" and "analog_tile a = Some t" and "\<not> is_cuda (tiles h t)"
  shows "cpu self h = Inr (upd_obj self (\<lambda>ob. ob\<lparr>data := tensor_cpu (data ob)\<rparr>) h)"
  using assms by (simp add: cpu_def Let_def upd_obj_simps)

lemma to_host:
  assumes "get_attrs h self = Inr a" and "analog_tile a = Some t" and "\<not> is_cuda (tiles h t)"
    and "to_target args kw = Some Cpu" and "to_args_ok args kw"
  shows "to self args kw h =
           Inr (upd_obj self (\<lambda>ob. ob\<lparr>data := tensor_to_value (data ob) args kw\<rparr>) h)"
  using assms get_attrs_InrD[OF assms(1)]
  by (simp add: to_def tensor_to_def Let_def upd_obj_simps get_attrs_def upd_obj_def)

lemma to_rejected:
  assumes "get_attrs h self = Inr a" and "\<not> to_args_ok args kw"
  shows "to self args kw h = Inl TypeError"
  using assms get_attrs_InrD[OF assms(1)]
  by (simp add: to_def tensor_to_def)

text \<open>
  C8. On a context whose tile is on the host, \<^verbatim>\<open>cpu()\<close> returns and leaves the binding
  alone: the context's attributes (both traces, both flags, the tile reference) and
  every tile are as before, so nothing is rebound. A \<^verbatim>\<open>to\<close> that targets the host does
  the same when \<^verbatim>\<open>Tensor.to\<close> accepts its arguments; when it does not, the call raises
  \<^verbatim>\<open>TypeError\<close> before anything is assigned. Issuing either move again, after either,
  changes nothing further.
\<close>

theorem host_move_is_noop:
  assumes "get_attrs h self = Inr a" and "analog_tile a = Some t" and "\<not> is_cuda (tiles h t)"
    and "to_target args kw = Some Cpu"
  shows "\<exists>h1. cpu self h = Inr h1
           \<and> get_attrs h1 self = Inr a \<and> tiles h1 = tiles h
           \<and> cpu self h1 = Inr h1
           \<and> (if to_args_ok args kw
              then (\<exists>h2. to self args kw h = Inr h2
                      \<and> get_attrs h2 self = Inr a \<and> tiles h2 = tiles h
                      \<and> to self args kw h2 = Inr h2
                      \<and> cpu self h2 = Inr h2 \<and> to self args kw h1 = Inr h2)
              else to self args kw h = Inl TypeError \<and> to self args kw h1 = Inl TypeError)"
proof -
  define h1 where "h1 = upd_obj self (\<lambda>ob. ob\<lparr>data := tensor_cpu (data ob)\<rparr>) h"
  define h2 where "h2 = upd_obj self (\<lambda>ob. ob\<lparr>data := tensor_to_value (data ob) args kw\<rparr>) h"
  have c: "cpu self h = Inr h1" unfolding h1_def by (rule cpu_host[OF assms(1-3)])
  have a1: "get_attrs h1 self = Inr a" and a2: "get_attrs h2 self = Inr a"
    using assms(1) by (simp_all add: h1_def h2_def get_attrs_upd_data)
  have t1: "tiles h1 = tiles h" and t2: "tiles h2 = tiles h"
    by (simp_all add: h1_def h2_def upd_obj_simps)
  have n1: "\<not> is_cuda (tiles h1 t)" and n2: "\<not> is_cuda (tiles h2 t)"
    using assms(3) by (simp_all add: t1 t2)
  have cc: "cpu self h1 = Inr h1"
    unfolding cpu_host[OF a1 assms(2) n1]
    by (simp add: h1_def upd_obj_twice tensor_cpu_idem)
  show ?thesis
  proof (cases "to_args_ok args kw")
    case True
    have t: "to self args kw h = Inr h2"
      unfolding h2_def by (rule to_host[OF assms True])
    have tt: "to self args kw h2 = Inr h2"
      unfolding to_host[OF a2 assms(2) n2 assms(4) True]
      by (simp add: h2_def upd_obj_twice tensor_to_value_idem)
    have ct: "cpu self h2 = Inr h2"
      unfolding cpu_host[OF a2 assms(2) n2]
      by (simp add: h2_def upd_obj_twice tensor_cpu_fix tensor_to_value_dev[OF assms(4)])
    have tc: "to self args kw h1 = Inr h2"
      unfolding to_host[OF a1 assms(2) n1 assms(4) True]
      by (simp add: h1_def h2_def upd_obj_twice tensor_to_value_after_cpu[OF assms(4)])
    from t a2 t2 tt ct tc have
      "\<exists>h2. to self args kw h = Inr h2
          \<and> get_attrs h2 self = Inr a \<and> tiles h2 = tiles h
          \<and> to self args kw h2 = Inr h2
          \<and> cpu self h2 = Inr h2 \<and> to self args kw h1 = Inr h2"
      by blast
    with True c a1 t1 cc show ?thesis by auto
  next
    case False
    from to_rejected[OF assms(1) False] to_rejected[OF a1 False] False c a1 t1 cc
    show ?thesis by auto
  qed
qed

theorem host_move_is_noop_witness:
  "get_attrs (busy_heap 0) 2 = Inr (busy_attrs 0) \<and> analog_tile (busy_attrs 0) = Some 0
   \<and> \<not> is_cuda (tiles (busy_heap 0) 0)
   \<and> to_target [ArgDevice Cpu, ArgDtype Float64] kw_none = Some Cpu
   \<and> traces (busy_heap 0) 2 = ([tensor_A], [tensor_B])
   \<and> (\<exists>h1. cpu 2 (busy_heap 0) = Inr h1
         \<and> get_attrs h1 2 = Inr (busy_attrs 0) \<and> tiles h1 = tiles (busy_heap 0)
         \<and> cpu 2 h1 = Inr h1
         \<and> (\<exists>h2. to 2 [ArgDevice Cpu, ArgDtype Float64] kw_none (busy_heap 0) = Inr h2
               \<and> get_attrs h2 2 = Inr (busy_attrs 0) \<and> tiles h2 = tiles (busy_heap 0)
               \<and> to 2 [ArgDevice Cpu, ArgDtype Float64] kw_none h2 = Inr h2
               \<and> cpu 2 h2 = Inr h2
               \<and> to 2 [ArgDevice Cpu, ArgDtype Float64] kw_none h1 = Inr h2))"
proof -
  have a: "get_attrs (busy_heap 0) 2 = Inr (busy_attrs 0)"
    by (simp add: get_attrs_def busy_heap_def)
  have t: "analog_tile (busy_attrs 0) = Some 0" by (simp add: busy_attrs_def)
  have n: "\<not> is_cuda (tiles (busy_heap 0) 0)"
    by (simp add: busy_heap_def heap0_def host_tile_def)
  have k: "to_target [ArgDevice Cpu, ArgDtype Float64] kw_none = Some Cpu"
    by (simp add: to_target_def kw_none_def)
  have ok: "to_args_ok [ArgDevice Cpu, ArgDtype Float64] kw_none"
    by (simp add: kw_none_def)
  have tr: "traces (busy_heap 0) 2 = ([tensor_A], [tensor_B])"
    by (simp add: traces_of_attrs[OF a] busy_attrs_def)
  from host_move_is_noop[OF a t n k] ok a t n k tr show ?thesis by simp
qed

lemma to_rejects_dtype_with_device_keyword:
  "to 2 [ArgDtype Float64] kw_host (busy_heap 0) = Inl TypeError"
  by (simp add: to_def tensor_to_def kw_host_def busy_heap_def)

section \<open>The trace invariant\<close>

lemma reset_traces:
  "reset self topt h = Inr h' \<Longrightarrow>
     traces h' r = (if r = self then ([], []) else traces h r) \<and> next_ref h' = next_ref h"
  by (auto simp: reset_def traces_set_attrs traces_upd_tile upd_tile_simps set_attrs_simps
        split: sum.splits option.splits)

lemma set_indexed_traces:
  "set_indexed self v h = Inr h' \<Longrightarrow> traces h' r = traces h r"
  by (auto simp: set_indexed_def traces_set_attrs traces_of_attrs split: sum.splits)

lemma set_data_traces:
  "set_data self d h = Inr h' \<Longrightarrow> traces h' r = traces h r"
  by (auto simp: set_data_def traces_upd_data split: sum.splits if_splits)

lemma new_parameter_traces:
  "traces (snd (new_parameter d h)) r = (if r = next_ref h then ([], []) else traces h r)"
  by (simp add: new_parameter_def traces_def)

lemma copy_traces:
  "copy self h = Inr (p, h') \<Longrightarrow>
     traces h' r = (if r = next_ref h then ([], []) else traces h r)"
  using new_parameter_traces[of "data (objs h self)" h r]
  by (auto simp: copy_def split: if_splits)

lemma deepcopy_traces:
  "deepcopy self h = Inr (p, h') \<Longrightarrow>
     traces h' r = (if r = next_ref h then ([], []) else traces h r)"
  using new_parameter_traces[of "data (objs h self)" h r]
  by (auto simp: deepcopy_def split: if_splits)

lemma construct_traces:
  assumes "construct topt popt h = Inr (self, h')"
  shows "traces h' r = (if r = self then ([], []) else traces h r)"
    and "popt = None \<Longrightarrow> self = next_ref h"
proof -
  from assms obtain h1 where n: "AnalogContext_new topt popt h = Inr (self, h1)"
    and i: "AnalogContext_init self topt h1 = Inr h'"
    by (auto simp: construct_def split: sum.splits)
  from n have t1: "r \<noteq> self \<Longrightarrow> traces h1 r = traces h r"
    by (auto simp: AnalogContext_new_def traces_def upd_obj_def split: option.splits)
  from i reset_traces[of self topt _ h' r]
  have "traces h' r = (if r = self then ([], []) else traces h1 r)"
    by (auto simp: AnalogContext_init_def traces_set_attrs)
  with t1 show "traces h' r = (if r = self then ([], []) else traces h r)" by simp
  from n show "popt = None \<Longrightarrow> self = next_ref h"
    by (auto simp: AnalogContext_new_def split: option.splits)
qed

lemma construct_self:
  "construct topt (Some q) h = Inr (self, h') \<Longrightarrow> self = q"
  by (auto simp: construct_def AnalogContext_new_def split: sum.splits)

lemma tile_on_cuda_upd_data:
  "tile_on_cuda (upd_obj self (\<lambda>ob. ob\<lparr>data := f ob\<rparr>) h) r = tile_on_cuda h r"
  by (simp add: tile_on_cuda_def get_attrs_upd_data upd_obj_simps split: sum.split)

lemma cuda_traces:
  assumes "cuda self d h = Inr h'"
  shows "traces h' r =
           (if r = self \<and> tile_on_cuda h self = Some False then ([], []) else traces h r)"
proof -
  from assms obtain a t where a: "get_attrs h self = Inr a" and t: "analog_tile a = Some t"
    by (auto simp: cuda_def split: sum.splits option.splits)
  have on: "tile_on_cuda h self = Some (is_cuda (tiles h t))"
    by (simp add: tile_on_cuda_def a t)
  show ?thesis
  proof (cases "is_cuda (tiles h t)")
    case True
    with assms a t on show ?thesis by (simp add: cuda_def)
  next
    case False
    with assms a t have
      "reset self (Some t)
         (upd_tile t (tile_cuda d)
            (upd_obj self (\<lambda>ob. ob\<lparr>data := get_weights (tiles h t)\<rparr>) h)) = Inr h'"
      by (simp add: cuda_def)
    from reset_traces[OF this, of r] False on show ?thesis
      by (simp add: traces_upd_tile traces_upd_data)
  qed
qed

lemma cpu_traces:
  assumes "cpu self h = Inr h'"
  shows "traces h' r =
           (if r = self \<and> tile_on_cuda h self = Some True then ([], []) else traces h r)"
proof -
  from assms obtain a where a: "get_attrs h self = Inr a"
    by (auto simp: cpu_def split: sum.splits)
  show ?thesis
  proof (cases "analog_tile a")
    case None
    with assms a show ?thesis
      by (auto simp: cpu_def Let_def tile_on_cuda_def traces_upd_data)
  next
    case (Some t)
    have on: "tile_on_cuda h self = Some (is_cuda (tiles h t))"
      by (simp add: tile_on_cuda_def a Some)
    show ?thesis
    proof (cases "is_cuda (tiles h t)")
      case False
      with assms a Some on show ?thesis
        by (auto simp: cpu_def Let_def upd_obj_simps traces_upd_data)
    next
      case True
      with assms a Some have
        "reset self (Some t)
           (upd_tile t tile_cpu
              (upd_obj self (\<lambda>ob. ob\<lparr>data := tensor_cpu (data ob)\<rparr>) h)) = Inr h'"
        by (simp add: cpu_def Let_def upd_obj_simps)
      from reset_traces[OF this, of r] True on show ?thesis
        by (simp add: traces_upd_tile traces_upd_data)
    qed
  qed
qed

lemma to_traces:
  assumes "to self args kw h = Inr h'"
  shows "traces h' r =
           (if runs_reset (OpTo self args kw) h r then ([], []) else traces h r)"
proof -
  from assms obtain d where d: "tensor_to (data (objs h self)) args kw = Inr d"
    and c: "cls (objs h self) = AnalogContextCls"
    by (auto simp: to_def split: if_splits sum.splits)
  define h1 where "h1 = upd_obj self (\<lambda>ob. ob\<lparr>data := d\<rparr>) h"
  have tr1: "\<And>q. traces h1 q = traces h q" by (simp add: h1_def traces_upd_data)
  have on1: "tile_on_cuda h1 self = tile_on_cuda h self"
    by (simp add: h1_def tile_on_cuda_upd_data)
  show ?thesis
  proof (cases "to_target args kw")
    case None
    with assms d c have "h' = h1" by (simp add: to_def Let_def h1_def)
    with None tr1 show ?thesis by simp
  next
    case (Some target)
    with assms d c obtain a t where a: "get_attrs h1 self = Inr a"
      and t: "analog_tile a = Some t"
      by (auto simp: to_def Let_def h1_def split: sum.splits option.splits)
    have on: "tile_on_cuda h1 self = Some (is_cuda (tiles h1 t))"
      by (simp add: tile_on_cuda_def a t)
    show ?thesis
    proof (cases target)
      case Cpu
      show ?thesis
      proof (cases "is_cuda (tiles h1 t)")
        case True
        with assms d c Some Cpu a t have "cpu self h1 = Inr h'"
          by (simp add: to_def Let_def h1_def)
        from cpu_traces[OF this, of r] Some Cpu on on1 tr1 show ?thesis by simp
      next
        case False
        with assms d c Some Cpu a t have "h' = h1"
          by (simp add: to_def Let_def h1_def)
        with Some Cpu on on1 tr1 False show ?thesis by simp
      qed
    next
      case (Cuda n)
      show ?thesis
      proof (cases "is_cuda (tiles h1 t)")
        case False
        with assms d c Some Cuda a t have "cuda self (Some target) h1 = Inr h'"
          by (simp add: to_def Let_def h1_def)
        from cuda_traces[OF this, of r] Some Cuda on on1 tr1 show ?thesis by simp
      next
        case True
        with assms d c Some Cuda a t have "h' = h1"
          by (simp add: to_def Let_def h1_def)
        with Some Cuda on on1 tr1 True show ?thesis by simp
      qed
    qed
  qed
qed

lemma forward_traces:
  assumes "forward nm c t x sh it h = Inr (out, s, h1)"
  shows "traces h1 r = traces h r"
proof -
  from assms obtain a where a: "get_attrs h c = Inr a"
    by (cases "get_attrs h c") (simp_all add: forward_def Let_def)
  from assms show ?thesis
    unfolding forward_eq[OF a] Let_def
    by (auto simp add: traces_upd_tile traces_set_attrs traces_of_attrs[OF a]
          split: option.split)
qed

lemma backward_traces_other:
  assumes "backward nm s g h = Inr (r, s', h')" and "q \<noteq> ctx_analog_ctx s"
  shows "traces h' q = traces h q"
proof -
  from backward_Inr_saved[OF assms(1)] obtain x xs where sv: "saved_tensors s = x # xs"
    by blast
  from assms(1) sv obtain a where a: "get_attrs h (ctx_analog_ctx s) = Inr a"
    by (auto simp: backward_def Let_def split: sum.splits)
  show ?thesis
  proof (cases "use_torch_update a")
    case False
    from assms show ?thesis
      unfolding backward_deferred_eq[OF a sv False] Let_def
      by (auto simp add: traces_set_attrs traces_upd_tile split: option.split)
  next
    case True
    show ?thesis
    proof (cases "ctx_shared_weights s")
      case None
      from backward_type_error[OF a sv True None] assms(1) show ?thesis by simp
    next
      case (Some w)
      from assms show ?thesis
        unfolding backward_direct_eq[OF a sv True Some] Let_def
        by (auto simp add: traces_upd_tile)
    qed
  qed
qed

lemma backward_traces_ctx:
  assumes "backward nm s g h = Inr (r, s', h')"
  shows "\<exists>a x e. get_attrs h (ctx_analog_ctx s) = Inr a
           \<and> traces h' (ctx_analog_ctx s) =
               (if use_torch_update a then traces h (ctx_analog_ctx s)
                else (fst (traces h (ctx_analog_ctx s)) @ [x],
                      snd (traces h (ctx_analog_ctx s)) @ [e]))"
proof -
  from backward_Inr_saved[OF assms(1)] obtain x xs where sv: "saved_tensors s = x # xs"
    by blast
  from assms(1) sv obtain a where a: "get_attrs h (ctx_analog_ctx s) = Inr a"
    by (cases "get_attrs h (ctx_analog_ctx s)") (simp_all add: backward_def Let_def)
  from backward_by_flags(2)[OF a assms] traces_of_attrs[OF a] a
  show ?thesis by auto
qed

lemma apply_op_traces:
  assumes "apply_op nm op h = Inr h'"
  shows "(runs_reset op h r \<and> traces h' r = ([], []))
       \<or> (\<not> runs_reset op h r \<and>
            (traces h' r = traces h r
           \<or> (next_ref h \<le> r \<and> traces h' r = ([], []))
           \<or> (\<exists>s g a x e. op = OpBackward s g \<and> ctx_analog_ctx s = r
                 \<and> get_attrs h r = Inr a \<and> \<not> use_torch_update a
                 \<and> traces h' r = (fst (traces h r) @ [x], snd (traces h r) @ [e]))))"
proof (cases op)
  case (OpConstruct t p)
  with assms obtain self where c: "construct t p h = Inr (self, h')"
    by (cases "construct t p h") auto
  show ?thesis
  proof (cases p)
    case None
    from construct_traces(1)[OF c, of r] construct_traces(2)[OF c None] OpConstruct None
    show ?thesis by auto
  next
    case (Some q)
    from c Some have "self = q" by (simp add: construct_self)
    with construct_traces(1)[OF c, of r] OpConstruct Some show ?thesis by auto
  qed
next
  case (OpReset self t)
  with assms reset_traces[of self t h h' r] show ?thesis by auto
next
  case (OpSetIndexed self v)
  with assms set_indexed_traces[of self v h h' r] show ?thesis by auto
next
  case (OpSetData self d)
  with assms set_data_traces[of self d h h' r] show ?thesis by auto
next
  case (OpCopy self)
  with assms obtain p where "copy self h = Inr (p, h')"
    by (cases "copy self h") auto
  from copy_traces[OF this, of r] OpCopy show ?thesis by auto
next
  case (OpDeepcopy self)
  with assms obtain p where "deepcopy self h = Inr (p, h')"
    by (cases "deepcopy self h") auto
  from deepcopy_traces[OF this, of r] OpDeepcopy show ?thesis by auto
next
  case (OpCuda self d)
  with assms have "cuda self d h = Inr h'" by simp
  from cuda_traces[OF this, of r] OpCuda show ?thesis by auto
next
  case (OpCpu self)
  with assms have "cpu self h = Inr h'" by simp
  from cpu_traces[OF this, of r] OpCpu show ?thesis by auto
next
  case (OpTo self args kw)
  with assms have "to self args kw h = Inr h'" by simp
  from to_traces[OF this, of r] OpTo show ?thesis by auto
next
  case (OpForward c t x sh it)
  with assms obtain out s where "forward nm c t x sh it h = Inr (out, s, h')"
    by (cases "forward nm c t x sh it h") auto
  from forward_traces[OF this, of r] OpForward show ?thesis by simp
next
  case (OpBackward s g)
  with assms obtain res s' where b: "backward nm s g h = Inr (res, s', h')"
    by (cases "backward nm s g h") auto
  show ?thesis
  proof (cases "r = ctx_analog_ctx s")
    case False
    from backward_traces_other[OF b False] OpBackward show ?thesis by simp
  next
    case True
    from backward_traces_ctx[OF b] True OpBackward show ?thesis
      by (auto split: if_splits)
  qed
qed

text \<open>
  C2, as stated, fails in its last clause: \<^verbatim>\<open>cuda()\<close> on a context whose tile is on the
  host moves the tile and rebinds through \<^verbatim>\<open>reset\<close>, so a trace that held one pair is
  emptied although no \<^verbatim>\<open>reset\<close> operation was issued.
\<close>

theorem device_move_clears_traces:
  "(case apply_op nm0 (OpBackward saved_A tensor_B) (bound_heap 0) of
      Inl e \<Rightarrow> None
    | Inr h1 \<Rightarrow>
        (case apply_op nm0 (OpCuda 2 None) h1 of
           Inl e \<Rightarrow> None
         | Inr h2 \<Rightarrow> Some (traces h1 2, traces h2 2)))
   = Some (([tensor_A], [tensor_B]), ([], []))"
  by (simp add: cuda_def reset_def traces_def get_weights_def tile_cuda_def saved_A_def
        run_defs tile_defs double_defs)

text \<open>
  C2, amended. Every operation keeps the two traces of every object equal in length.
  For an object already in the store: when the operation reaches \<^verbatim>\<open>reset\<close> on it
  (\<^verbatim>\<open>reset\<close> itself, construction on the object it re-attaches, a device move that
  actually migrates the tile) both traces are empty afterwards; otherwise the traces are
  as they were, or each has exactly one more element, and this only for \<^verbatim>\<open>backward\<close>
  on that context in deferred mode. A device move that finds the tile already in place
  leaves the traces alone.
\<close>

theorem traces_stay_balanced:
  assumes "apply_op nm op h = Inr h'" and "traces_balanced h r"
  shows "traces_balanced h' r
       \<and> (r < next_ref h \<longrightarrow>
            (runs_reset op h r \<longrightarrow> traces h' r = ([], []))
          \<and> (\<not> runs_reset op h r \<longrightarrow>
               traces h' r = traces h r
             \<or> (\<exists>s g a x e. op = OpBackward s g \<and> ctx_analog_ctx s = r
                   \<and> get_attrs h r = Inr a \<and> \<not> use_torch_update a
                   \<and> traces h' r = (fst (traces h r) @ [x], snd (traces h r) @ [e]))))"
  using apply_op_traces[OF assms(1), of r] assms(2)
  by (auto simp: traces_balanced_def)

theorem traces_stay_balanced_witness:
  "traces_balanced (busy_heap 1) 2
   \<and> \<not> runs_reset (OpCuda 2 None) (busy_heap 1) 2
   \<and> (\<exists>h'. apply_op nm0 (OpCuda 2 None) (busy_heap 1) = Inr h'
         \<and> traces_balanced h' 2 \<and> traces h' 2 = ([tensor_A], [tensor_B]))
   \<and> traces_balanced (busy_heap 0) 2
   \<and> runs_reset (OpCuda 2 None) (busy_heap 0) 2
   \<and> (\<exists>h'. apply_op nm0 (OpCuda 2 None) (busy_heap 0) = Inr h'
         \<and> traces_balanced h' 2 \<and> traces h' 2 = ([], []))"
proof -
  have a: "get_attrs (busy_heap t) 2 = Inr (busy_attrs t)" for t
    by (simp add: get_attrs_def busy_heap_def)
  have tr: "traces (busy_heap t) 2 = ([tensor_A], [tensor_B])" for t
    by (simp add: traces_of_attrs[OF a] busy_attrs_def)
  have bal: "traces_balanced (busy_heap t) 2" for t
    by (simp add: traces_balanced_def tr)
  have on1: "tile_on_cuda (busy_heap 1) 2 = Some True"
    unfolding tile_on_cuda_def a
    by (simp add: busy_attrs_def busy_heap_def heap0_def cuda_tile_def)
  have on0: "tile_on_cuda (busy_heap 0) 2 = Some False"
    unfolding tile_on_cuda_def a
    by (simp add: busy_attrs_def busy_heap_def heap0_def host_tile_def)
  have r1: "\<not> runs_reset (OpCuda 2 None) (busy_heap 1) 2" using on1 by simp
  have r0: "runs_reset (OpCuda 2 None) (busy_heap 0) 2" using on0 by simp
  have n: "(2::nat) < next_ref (busy_heap t)" for t by (simp add: busy_heap_def)
  have "\<exists>h'. apply_op nm0 (OpCuda 2 None) (busy_heap 1) = Inr h'"
    unfolding apply_op.simps cuda_def a
    by (simp add: busy_attrs_def busy_heap_def heap0_def cuda_tile_def)
  then obtain h1 where ap1: "apply_op nm0 (OpCuda 2 None) (busy_heap 1) = Inr h1" by blast
  have "\<exists>h'. apply_op nm0 (OpCuda 2 None) (busy_heap 0) = Inr h'"
    unfolding apply_op.simps cuda_def a
    by (simp add: reset_def get_attrs_def set_attrs_def upd_obj_def upd_tile_def
          busy_attrs_def busy_heap_def heap0_def host_tile_def)
  then obtain h0 where ap0: "apply_op nm0 (OpCuda 2 None) (busy_heap 0) = Inr h0" by blast
  from traces_stay_balanced[OF ap1 bal] r1 n tr
  have 1: "traces_balanced h1 2 \<and> traces h1 2 = ([tensor_A], [tensor_B])" by simp
  from traces_stay_balanced[OF ap0 bal] r0 n
  have 0: "traces_balanced h0 2 \<and> traces h0 2 = ([], [])" by simp
  from ap1 ap0 1 0 bal r1 r0 show ?thesis by blast
qed

end
